theory Spec2Isabelle
  imports Complex_Main "HOL-Library.Word"
begin

section \<open>JavaScript values used by the server code\<close>

text \<open>
  Identifiers, e-mail addresses, tier names and the usage counters are ASCII strings in the
  source and are modelled as \<open>string\<close>.  Text that is inspected character by character
  (the transcription returned by the speech provider, the text sent to speech synthesis) is a
  list of UTF-16 code units, as a JavaScript string is.
\<close>

type_synonym jsstring = "16 word list"

text \<open>A JavaScript number that is either an integer or \<open>NaN\<close>.  The counters stay far below
  2^53, so the integer part is modelled by \<open>int\<close>.\<close>

datatype jsnum = Num int | NaN

text \<open>\<open>a < b\<close> on numbers: false as soon as one side is \<open>NaN\<close>.\<close>

fun js_less :: "jsnum \<Rightarrow> jsnum \<Rightarrow> bool" where
  "js_less (Num a) (Num b) = (a < b)"
| "js_less _ _ = False"

text \<open>\<open>s || d\<close> for a nullable string: \<open>null\<close>, \<open>undefined\<close> and the empty string are falsy.\<close>

fun or_default :: "string option \<Rightarrow> string \<Rightarrow> string" where
  "or_default None d = d"
| "or_default (Some s) d = (if s = [] then d else s)"

subsection \<open>\<open>parseInt\<close> and \<open>String\<close> on the counters\<close>

text \<open>White space skipped by \<open>parseInt\<close>, among the code units below 256.\<close>

definition is_js_space :: "char \<Rightarrow> bool" where
  "is_js_space c = (of_char c \<in> {9, 10, 11, 12, 13, 32, 160 :: nat})"

definition digit_value :: "nat \<Rightarrow> char \<Rightarrow> nat option" where
  "digit_value radix c =
     (let n = of_char c :: nat;
          d = (if 48 \<le> n \<and> n \<le> 57 then Some (n - 48)
               else if 97 \<le> n \<and> n \<le> 122 then Some (n - 87)
               else if 65 \<le> n \<and> n \<le> 90 then Some (n - 55)
               else None)
      in case d of None \<Rightarrow> None | Some v \<Rightarrow> if v < radix then Some v else None)"

text \<open>The longest prefix of digits of the radix, as digit values.\<close>

fun digits_prefix :: "nat \<Rightarrow> string \<Rightarrow> nat list" where
  "digits_prefix radix [] = []"
| "digits_prefix radix (c # cs) =
     (case digit_value radix c of None \<Rightarrow> [] | Some v \<Rightarrow> v # digits_prefix radix cs)"

definition digits_number :: "nat \<Rightarrow> nat list \<Rightarrow> nat" where
  "digits_number radix ds = foldl (\<lambda>a d. a * radix + d) 0 ds"

text \<open>\<open>parseInt(s)\<close> without a radix: leading white space, an optional sign, an optional
  \<open>0x\<close> prefix, then the longest prefix of digits; \<open>NaN\<close> when there is no digit.\<close>

definition parseInt :: "string \<Rightarrow> jsnum" where
  "parseInt s =
     (let t = dropWhile is_js_space s;
          (neg, u) = (case t of
                        [] \<Rightarrow> (False, t)
                      | c # r \<Rightarrow> if c = CHR ''-'' then (True, r)
                                else if c = CHR ''+'' then (False, r)
                                else (False, t));
          (radix, w) = (case u of
                          a # b # r \<Rightarrow> if a = CHR ''0'' \<and> (b = CHR ''x'' \<or> b = CHR ''X'')
                                       then (16, r) else (10, u)
                        | _ \<Rightarrow> (10, u));
          ds = digits_prefix radix w
      in if ds = [] then NaN
         else Num ((if neg then - 1 else 1) * int (digits_number radix ds)))"

fun decimal :: "nat \<Rightarrow> string" where
  "decimal n = (if n < 10 then [char_of (48 + n)]
                else decimal (n div 10) @ [char_of (48 + n mod 10)])"

declare decimal.simps [simp del]

text \<open>\<open>String(x)\<close> and \<open>x.toString()\<close> for an integer or \<open>NaN\<close>.\<close>

definition js_String :: "jsnum \<Rightarrow> string" where
  "js_String x = (case x of
                    NaN \<Rightarrow> ''NaN''
                  | Num i \<Rightarrow> if i < 0 then CHR ''-'' # decimal (nat (- i)) else decimal (nat i))"

text \<open>A decimal digit.\<close>

definition is_digit_char :: "char \<Rightarrow> bool" where
  "is_digit_char c = (48 \<le> (of_char c :: nat) \<and> (of_char c :: nat) \<le> 57)"

text \<open>\<open>x + 1\<close>.\<close>

fun js_succ :: "jsnum \<Rightarrow> jsnum" where
  "js_succ (Num i) = Num (i + 1)"
| "js_succ NaN = NaN"

subsection \<open>Members of object literals\<close>

text \<open>
  An object literal used as a table inherits the members of \<open>Object.prototype\<close>, so
  \<open>table[key]\<close> finds a value not only for the keys written in the literal but also for the
  names below; each of these inherited values is a function or an object, hence truthy and not a
  number.  The list is the one of the runtime (Node.js).
\<close>

definition object_prototype_names :: "string list" where
  "object_prototype_names =
     [''constructor'', ''__defineGetter__'', ''__defineSetter__'', ''hasOwnProperty'',
      ''__lookupGetter__'', ''__lookupSetter__'', ''isPrototypeOf'', ''propertyIsEnumerable'',
      ''toString'', ''valueOf'', ''__proto__'', ''toLocaleString'']"

datatype 'a property = Own 'a | Inherited string | Missing

text \<open>\<open>literal[key]\<close>: a written key wins, then an inherited name, else \<open>undefined\<close>.\<close>

definition get_property :: "(string \<times> 'a) list \<Rightarrow> string \<Rightarrow> 'a property" where
  "get_property literal key =
     (case map_of literal key of
        Some v \<Rightarrow> Own v
      | None \<Rightarrow> if key \<in> set object_prototype_names then Inherited key else Missing)"

text \<open>The limit that a quota check works with: a number, or the inherited member that the
  lookup of the tier has found.\<close>

datatype limit_value = Limit int | InheritedLimit string

text \<open>\<open>table[key] || d\<close> on an object literal of numbers: a missing key and the value 0 give
  the default, an inherited member is truthy and is kept.\<close>

definition lookup_or :: "(string \<times> int) list \<Rightarrow> string \<Rightarrow> int \<Rightarrow> limit_value" where
  "lookup_or table key d =
     (case get_property table key of
        Own v \<Rightarrow> if v = 0 then Limit d else Limit v
      | Inherited m \<Rightarrow> InheritedLimit m
      | Missing \<Rightarrow> Limit d)"

text \<open>\<open>currentUsage < limit\<close>: an inherited member converts to \<open>NaN\<close>, so the comparison is
  false.\<close>

fun js_below :: "jsnum \<Rightarrow> limit_value \<Rightarrow> bool" where
  "js_below cur (Limit l) = js_less cur (Num l)"
| "js_below cur (InheritedLimit m) = False"

subsection \<open>Thrown values\<close>

text \<open>One constructor for each \<open>throw\<close> of the modelled code and for each kind of exception
  raised by the runtime or by a collaborator; the three wrappers are the \<open>catch\<close> blocks that
  rethrow with a prefixed message.\<close>

datatype failure =
    TypeError
  | SyntaxError
  | ProviderFailure
  | HttpError nat
  | StorageFailure
  | ApiKeyNotConfigured
  | NoContent
  | InvalidLines
  | InvalidFocusPhrases
  | AudioTooShort
  | SilenceOrNoise
  | DialogueGenerationFailed failure
  | SpeechRecognitionFailed failure
  | ConversationGenerationFailed failure

subsection \<open>Text as UTF-16 code units\<close>

definition ascii :: "string \<Rightarrow> jsstring" where
  "ascii s = map (\<lambda>c. of_nat (of_char c)) s"

text \<open>\<open>WhiteSpace\<close> and \<open>LineTerminator\<close> code units, removed by \<open>trim\<close>.\<close>

definition is_js_whitespace :: "16 word \<Rightarrow> bool" where
  "is_js_whitespace c =
     (c \<in> {0x09, 0x0A, 0x0B, 0x0C, 0x0D, 0x20, 0xA0, 0x1680, 0x2028, 0x2029, 0x202F,
            0x205F, 0x3000, 0xFEFF}
      \<or> (0x2000 \<le> c \<and> c \<le> 0x200A))"

definition js_trim :: "jsstring \<Rightarrow> jsstring" where
  "js_trim s = rev (dropWhile is_js_whitespace (rev (dropWhile is_js_whitespace s)))"

fun starts_with :: "jsstring \<Rightarrow> jsstring \<Rightarrow> bool" where
  "starts_with s [] = True"
| "starts_with [] (h # hs) = False"
| "starts_with (c # cs) (h # hs) = (c = h \<and> starts_with cs hs)"

text \<open>\<open>s.includes(h)\<close>: \<open>h\<close> occurs in \<open>s\<close> as a contiguous run.\<close>

fun js_includes :: "jsstring \<Rightarrow> jsstring \<Rightarrow> bool" where
  "js_includes [] h = (h = [])"
| "js_includes (c # cs) h = (starts_with (c # cs) h \<or> js_includes cs h)"

subsection \<open>Parsed JSON\<close>

text \<open>The value returned by \<open>JSON.parse\<close>; an object lists each of its keys once.\<close>

datatype json =
    JNull
  | JBool bool
  | JNum real
  | JStr jsstring
  | JArr "json list"
  | JObj "(string \<times> json) list"

text \<open>Reading the member \<open>key\<close> of a parsed value, for a key that is not a built-in property of
  arrays and strings: \<open>null\<close> throws, an object yields the member or \<open>undefined\<close> (\<open>None\<close>),
  every other value yields \<open>undefined\<close>.\<close>

definition get_member :: "json \<Rightarrow> string \<Rightarrow> failure + json option" where
  "get_member v key =
     (case v of JNull \<Rightarrow> Inl TypeError | JObj kvs \<Rightarrow> Inr (map_of kvs key) | _ \<Rightarrow> Inr None)"

text \<open>Truthiness of a value that may be \<open>undefined\<close>.\<close>

fun truthy :: "json option \<Rightarrow> bool" where
  "truthy None = False"
| "truthy (Some JNull) = False"
| "truthy (Some (JBool b)) = b"
| "truthy (Some (JNum r)) = (r \<noteq> 0)"
| "truthy (Some (JStr s)) = (s \<noteq> [])"
| "truthy (Some (JArr xs)) = True"
| "truthy (Some (JObj kvs)) = True"

fun isArray :: "json option \<Rightarrow> bool" where
  "isArray (Some (JArr xs)) = True"
| "isArray _ = False"

fun elements :: "json option \<Rightarrow> json list" where
  "elements (Some (JArr xs)) = xs"
| "elements _ = []"

section \<open>Voice selection (services/openai-tts)\<close>

datatype voice = alloy | echo | fable | onyx | nova | shimmer

text \<open>\<open>String.prototype.toLowerCase\<close> on the code units below 256.\<close>

definition lower_char :: "char \<Rightarrow> char" where
  "lower_char c =
     (let n = of_char c :: nat in
      if (65 \<le> n \<and> n \<le> 90) \<or> (192 \<le> n \<and> n \<le> 222 \<and> n \<noteq> 215)
      then char_of (n + 32) else c)"

definition toLowerCase :: "string \<Rightarrow> string" where
  "toLowerCase s = map lower_char s"

text \<open>The object literal \<open>roleVoices\<close>; every entry depends on \<open>gender === 'female'\<close>.\<close>

definition roleVoices :: "string \<Rightarrow> (string \<times> voice) list" where
  "roleVoices gender =
     [(''Professional Server'', if gender = ''female'' then nova else onyx),
      (''Flight Attendant'', if gender = ''female'' then nova else onyx),
      (''Friendly Barista'', if gender = ''female'' then alloy else fable),
      (''Senior Executive'', if gender = ''female'' then nova else onyx),
      (''Concierge'', if gender = ''female'' then nova else onyx),
      (''Check-in Staff'', if gender = ''female'' then nova else onyx)]"

text \<open>The \<open>switch\<close> on the lower-cased style inside the female branch and inside the male branch.\<close>

definition female_voice :: "string \<Rightarrow> voice" where
  "female_voice style =
     (let s = toLowerCase style in
      if s = ''professional'' \<or> s = ''strict'' then nova
      else if s = ''cheerful'' \<or> s = ''friendly'' then shimmer
      else if s = ''calm'' then alloy
      else nova)"

definition male_voice :: "string \<Rightarrow> voice" where
  "male_voice style =
     (let s = toLowerCase style in
      if s = ''professional'' \<or> s = ''strict'' then onyx
      else if s = ''cheerful'' \<or> s = ''friendly'' then echo
      else if s = ''calm'' then fable
      else onyx)"

text \<open>What the function returns: one of the six voices, or the member that \<open>roleVoices[role]\<close>
  has found by inheritance, which is no voice.\<close>

datatype voice_result = Voice voice | InheritedMember string

text \<open>\<open>getOpenAIVoiceForCharacter(style, gender, role = '')\<close>.  The test
  \<open>role && roleVoices[role]\<close> holds for a non-empty role that is a written key or an inherited
  name, and the function then returns \<open>roleVoices[role]\<close>.\<close>

definition getOpenAIVoiceForCharacter :: "string \<Rightarrow> string \<Rightarrow> string \<Rightarrow> voice_result" where
  "getOpenAIVoiceForCharacter style gender role =
     (case (if role \<noteq> [] then get_property (roleVoices gender) role else Missing) of
        Own v \<Rightarrow> Voice v
      | Inherited m \<Rightarrow> InheritedMember m
      | Missing \<Rightarrow>
          Voice (if toLowerCase gender = ''female'' then female_voice style
                 else if toLowerCase gender = ''male'' then male_voice style
                 else nova))"

section \<open>Storage (server/storage)\<close>

text \<open>
  The declaration of the tables (\<open>shared/schema\<close>) is not among the sources; the records have
  the columns that the storage class and the routes read or write, with the types that these
  uses show.  The counters are nullable text columns holding decimal numerals (\<open>parseInt\<close> reads
  them, \<open>String\<close> writes them); timestamps are milliseconds since the epoch.
\<close>

record user =
  email :: "string option"
  isAdmin :: "bool option"
  subscriptionTier :: "string option"
  conversationCount :: "string option"
  imageGenerationCount :: "string option"
  ttsUsageCount :: "string option"
  dailyUsageCount :: "string option"
  monthlyImageCount :: "string option"
  lastUsageReset :: "int option"
  updatedAt :: "int option"

text \<open>A row of \<open>saved_characters\<close>, without the key and the timestamps that the database
  assigns.\<close>

record saved_character =
  sc_userId :: string
  sc_name :: string
  sc_gender :: string
  sc_style :: string
  sc_imageUrl :: string
  sc_audience :: string
  sc_scenario :: "string option"
  sc_backgroundPrompt :: "string option"

text \<open>The table \<open>users\<close> maps the primary key \<open>id\<close> to the row.  A query on a database that
  is not \<open>available\<close> throws (\<open>StorageFailure\<close>).\<close>

record storage =
  users :: "string \<rightharpoonup> user"
  savedCharacters :: "saved_character list"
  available :: bool

definition getUser :: "storage \<Rightarrow> string \<Rightarrow> failure + user option" where
  "getUser st userId = (if available st then Inr (users st userId) else Inl StorageFailure)"

text \<open>\<open>updateUserSubscription(userId, data)\<close>: the columns of \<open>data\<close> are written by the
  function \<open>set_data\<close>, then \<open>updatedAt\<close>; the updated row is returned, \<open>undefined\<close> when no
  row has the id.\<close>

definition updateUserSubscription ::
  "storage \<Rightarrow> string \<Rightarrow> (user \<Rightarrow> user) \<Rightarrow> int \<Rightarrow> failure + (user option \<times> storage)" where
  "updateUserSubscription st userId set_data now =
     (if \<not> available st then Inl StorageFailure
      else case users st userId of
             None \<Rightarrow> Inr (None, st)
           | Some u \<Rightarrow>
               let u' = (set_data u)\<lparr>updatedAt := Some now\<rparr>
               in Inr (Some u', st\<lparr>users := (users st)(userId \<mapsto> u')\<rparr>))"

definition resetUserUsage :: "storage \<Rightarrow> string \<Rightarrow> int \<Rightarrow> failure + (user option \<times> storage)" where
  "resetUserUsage st userId now =
     (if \<not> available st then Inl StorageFailure
      else case users st userId of
             None \<Rightarrow> Inr (None, st)
           | Some u \<Rightarrow>
               let u' = u\<lparr>conversationCount := Some ''0'',
                          imageGenerationCount := Some ''0'',
                          ttsUsageCount := Some ''0'',
                          dailyUsageCount := Some ''0'',
                          monthlyImageCount := Some ''0'',
                          lastUsageReset := Some now,
                          updatedAt := Some now\<rparr>
               in Inr (Some u', st\<lparr>users := (users st)(userId \<mapsto> u')\<rparr>))"

datatype usage_type = conversation | imageGeneration | tts

definition incrementUsage :: "storage \<Rightarrow> string \<Rightarrow> usage_type \<Rightarrow> int \<Rightarrow> failure + storage" where
  "incrementUsage st userId type now =
     (case getUser st userId of
        Inl e \<Rightarrow> Inl e
      | Inr None \<Rightarrow> Inr st
      | Inr (Some u) \<Rightarrow>
          let u' = (case type of
                      conversation \<Rightarrow>
                        u\<lparr>conversationCount :=
                            Some (js_String (js_succ (parseInt (or_default (conversationCount u) ''0''))))\<rparr>
                    | imageGeneration \<Rightarrow>
                        u\<lparr>imageGenerationCount :=
                            Some (js_String (js_succ (parseInt (or_default (imageGenerationCount u) ''0''))))\<rparr>
                    | tts \<Rightarrow>
                        u\<lparr>ttsUsageCount :=
                            Some (js_String (js_succ (parseInt (or_default (ttsUsageCount u) ''0''))))\<rparr>)
          in Inr (st\<lparr>users := (users st)(userId \<mapsto> u'\<lparr>updatedAt := Some now\<rparr>)\<rparr>))"

definition saveCharacter :: "storage \<Rightarrow> saved_character \<Rightarrow> failure + storage" where
  "saveCharacter st characterData =
     (if available st then Inr (st\<lparr>savedCharacters := savedCharacters st @ [characterData]\<rparr>)
      else Inl StorageFailure)"

section \<open>Quota checks (server/routes)\<close>

record usage_check =
  canUse :: bool
  currentUsage :: jsnum
  limit :: limit_value

definition denied :: usage_check where
  "denied = \<lparr>canUse = False, currentUsage = Num 0, limit = Limit 0\<rparr>"

text \<open>The administrative bypass written in both checks:
  \<open>user.email === 'mainstop3@gmail.com' || user.isAdmin === true\<close>.\<close>

definition admin_bypass :: "user \<Rightarrow> bool" where
  "admin_bypass u = (email u = Some ''mainstop3@gmail.com'' \<or> isAdmin u = Some True)"

definition conversation_limits :: "(string \<times> int) list" where
  "conversation_limits = [(''free'', 30), (''starter'', 300), (''pro'', 1000), (''premium'', 5000)]"

definition imageLimits :: "(string \<times> int) list" where
  "imageLimits = [(''free'', 1), (''starter'', 15), (''pro'', 25), (''premium'', 60)]"

definition checkUsageLimit :: "storage \<Rightarrow> string \<Rightarrow> usage_check" where
  "checkUsageLimit st userId =
     (case getUser st userId of
        Inl e \<Rightarrow> denied
      | Inr None \<Rightarrow> denied
      | Inr (Some u) \<Rightarrow>
          if admin_bypass u then \<lparr>canUse = True, currentUsage = Num 0, limit = Limit 999999\<rparr>
          else
            let tier = or_default (subscriptionTier u) ''free'';
                lim = lookup_or conversation_limits tier 30;
                cur = parseInt (or_default (conversationCount u) ''0'')
            in \<lparr>canUse = js_below cur lim, currentUsage = cur, limit = lim\<rparr>)"

definition checkImageUsageLimit :: "storage \<Rightarrow> string \<Rightarrow> usage_check" where
  "checkImageUsageLimit st userId =
     (case getUser st userId of
        Inl e \<Rightarrow> denied
      | Inr None \<Rightarrow> denied
      | Inr (Some u) \<Rightarrow>
          if admin_bypass u then \<lparr>canUse = True, currentUsage = Num 0, limit = Limit 999999\<rparr>
          else
            let tier = or_default (subscriptionTier u) ''free'';
                lim = lookup_or imageLimits tier 1;
                cur = parseInt (or_default (imageGenerationCount u) ''0'')
            in \<lparr>canUse = js_below cur lim, currentUsage = cur, limit = lim\<rparr>)"

section \<open>Dialogue generation (services/openai)\<close>

text \<open>
  What the chat provider answers to the one request of \<open>generateDialogue\<close>: the call throws, or
  it returns the content of the first choice, which may be \<open>null\<close>.  The prompt texts are not
  modelled; a recorded call keeps which of the two prompt templates was used.
\<close>

datatype completion = CompletionThrows | CompletionContent "jsstring option"

record dialogue_character =
  dc_name :: string
  dc_style :: string

record dialogue_scenario =
  freeText :: "jsstring option"
  presetKey :: "string option"

record dialogue_request =
  dr_audience :: string
  dr_character :: "dialogue_character option"
  dr_scenario :: "dialogue_scenario option"

record dialogue_result =
  lines :: "json list"
  focus_phrases :: "json list"

text \<open>The checks on the parsed content, in the order of the source.\<close>

definition validate_dialogue :: "json \<Rightarrow> failure + dialogue_result" where
  "validate_dialogue result =
     (case get_member result ''lines'' of
        Inl e \<Rightarrow> Inl e
      | Inr ls \<Rightarrow>
          if \<not> truthy ls \<or> \<not> isArray ls \<or> length (elements ls) \<noteq> 3 then Inl InvalidLines
          else
            (case get_member result ''focus_phrases'' of
               Inl e \<Rightarrow> Inl e
             | Inr fs \<Rightarrow>
                 if \<not> truthy fs \<or> \<not> isArray fs \<or> length (elements fs) \<noteq> 3
                 then Inl InvalidFocusPhrases
                 else Inr \<lparr>lines = elements ls, focus_phrases = elements fs\<rparr>))"

text \<open>The body of the \<open>try\<close> block, given the provider's answer; \<open>parse\<close> is \<open>JSON.parse\<close>
  (\<open>None\<close> for a syntax error).\<close>

definition dialogue_from_completion ::
  "(jsstring \<Rightarrow> json option) \<Rightarrow> completion \<Rightarrow> failure + dialogue_result" where
  "dialogue_from_completion parse c =
     (case c of
        CompletionThrows \<Rightarrow> Inl ProviderFailure
      | CompletionContent None \<Rightarrow> Inl NoContent
      | CompletionContent (Some content) \<Rightarrow>
          if content = [] then Inl NoContent
          else (case parse content of
                  None \<Rightarrow> Inl SyntaxError
                | Some result \<Rightarrow> validate_dialogue result))"

datatype voice_speed = Speed08 | Speed09

datatype chat_role = RoleSystem | RoleUser | RoleAssistant

datatype chat_content = TutorPrompt string string | Said jsstring

text \<open>What the prompt of \<open>generateConversationResponse\<close> is built from.\<close>

record conversation_prompt =
  cp_name :: string
  cp_topic :: jsstring
  cp_historyText :: jsstring
  cp_userInput :: jsstring
  cp_shouldConsiderEnding :: bool

text \<open>The requests sent to the AI provider.  \<open>DialogueCompletion custom\<close> is the chat completion
  of \<open>generateDialogue\<close> (\<open>custom\<close>: the free-text prompt template); \<open>AudioSpeech\<close> carries the
  voice, the speed (0.8 or 0.9) and the input; \<open>ChatCompletion\<close> carries the message list, whose
  system prompt is kept as the character's name and style; \<open>AudioTranscriptions\<close> carries the
  language; \<open>ConversationCompletion\<close> is the chat completion of
  \<open>generateConversationResponse\<close>.\<close>

datatype provider_call =
    ImagesGenerations
  | DialogueCompletion bool
  | AudioSpeech voice_result voice_speed jsstring
  | ChatCompletion "(chat_role \<times> chat_content) list"
  | AudioTranscriptions string
  | ConversationCompletion conversation_prompt

text \<open>The keys of the object literal \<open>audienceConfig\<close>; its values only feed the prompt.\<close>

definition audienceConfig :: "(string \<times> unit) list" where
  "audienceConfig = [(''student'', ()), (''general'', ()), (''business'', ())]"

text \<open>\<open>generateDialogue(request)\<close>.  Reading \<open>config.level\<close>, \<open>scenario.freeText\<close> or
  \<open>character.name\<close> throws before the \<open>try\<close> block when \<open>audienceConfig[audience]\<close> is
  \<open>undefined\<close> or the scenario or the character is missing; every failure inside the block is
  rethrown wrapped.  The result comes with the provider calls that were made.\<close>

definition generateDialogue ::
  "(jsstring \<Rightarrow> json option) \<Rightarrow> completion \<Rightarrow> dialogue_request
     \<Rightarrow> (failure + dialogue_result) \<times> provider_call list" where
  "generateDialogue parse c request =
     (case (dr_scenario request, dr_character request) of
        (Some scenario, Some character) \<Rightarrow>
          if get_property audienceConfig (dr_audience request) = Missing
          then (Inl TypeError, [])
          else
            let isCustomScenario =
                  (case freeText scenario of None \<Rightarrow> False | Some t \<Rightarrow> js_trim t \<noteq> [])
            in (case dialogue_from_completion parse c of
                  Inl e \<Rightarrow> (Inl (DialogueGenerationFailed e), [DialogueCompletion isCustomScenario])
                | Inr r \<Rightarrow> (Inr r, [DialogueCompletion isCustomScenario]))
      | _ \<Rightarrow> (Inl TypeError, []))"

section \<open>HTTP routes (server/routes)\<close>

text \<open>
  A handler takes the storage, the time of the request (one clock reading stands for the
  successive \<open>new Date()\<close> of one request), the user id of the session (\<open>None\<close> when
  \<open>req.isAuthenticated()\<close> is false), the request body and the answer that the AI provider
  gives if it is called.  It returns the response, the storage after the request and the
  provider calls it made, in order.
\<close>

text \<open>The literal message texts of the responses, by name.\<close>

datatype message =
    Unauthorized
  | UserNotFound
  | FailedToCheckUsage
  | FailedToIncrementUsage
  | UsageLimitReached
  | ImageLimitReached
  | ImageGenerated
  | ImageGenerationError
  | DialogueGenerated
  | DialogueGenerationError
  | JapaneseSpeechGenerated
  | SpeechGenerated
  | SpeechGenerationError
  | ConversationError
  | AudioDataRequired
  | SpeechRecognized
  | SpeechRecognitionError

datatype rval =
    RNull
  | RBool bool
  | RUndefined
  | RNum jsnum
  | RLimit limit_value
  | RReal real
  | RStr string
  | RText jsstring
  | RMsg message
  | RError failure
  | RItems "json list"
  | RObj "(string \<times> rval) list"

record response =
  status :: nat
  body :: "(string \<times> rval) list"

datatype 'a answer = Throws | NotOk nat | Ok 'a

definition message_only :: "nat \<Rightarrow> message \<Rightarrow> response" where
  "message_only code m = \<lparr>status = code, body = [(''message'', RMsg m)]\<rparr>"

text \<open>The body of the \<open>catch\<close> blocks of the AI endpoints: status 500, a message and the
  message of the caught error.\<close>

definition server_error :: "message \<Rightarrow> failure \<Rightarrow> response" where
  "server_error m e = \<lparr>status = 500, body = [(''message'', RMsg m), (''error'', RError e)]\<rparr>"

definition answer_failure :: "'a answer \<Rightarrow> failure" where
  "answer_failure a = (case a of NotOk code \<Rightarrow> HttpError code | _ \<Rightarrow> ProviderFailure)"

subsection \<open>\<open>POST /api/check-usage\<close> and \<open>POST /api/increment-usage\<close>\<close>

record tier_limits =
  conversations :: int
  images :: int

definition limits_free :: tier_limits where
  "limits_free = \<lparr>conversations = 30, images = 1\<rparr>"

definition limits :: "(string \<times> tier_limits) list" where
  "limits = [(''free'', limits_free),
             (''starter'', \<lparr>conversations = 300, images = 15\<rparr>),
             (''pro'', \<lparr>conversations = 600, images = 25\<rparr>),
             (''premium'', \<lparr>conversations = 1200, images = 60\<rparr>)]"

text \<open>\<open>userLimit.conversations\<close> as a number: an inherited member has no such property, and
  \<open>undefined\<close> compares as \<open>NaN\<close>.\<close>

fun userLimit_conversations :: "tier_limits property \<Rightarrow> jsnum" where
  "userLimit_conversations (Own l) = Num (conversations l)"
| "userLimit_conversations _ = NaN"

definition day_ms :: int where
  "day_ms = 1000 * 60 * 60 * 24"

definition check_usage_route :: "storage \<Rightarrow> int \<Rightarrow> string option \<Rightarrow> response \<times> storage" where
  "check_usage_route st now auth =
     (case auth of
        None \<Rightarrow> (message_only 401 Unauthorized, st)
      | Some userId \<Rightarrow>
          (case getUser st userId of
             Inl e \<Rightarrow> (message_only 500 FailedToCheckUsage, st)
           | Inr None \<Rightarrow> (message_only 404 UserNotFound, st)
           | Inr (Some u) \<Rightarrow>
               let lastReset = (case lastUsageReset u of None \<Rightarrow> now | Some t \<Rightarrow> t);
                   daysSinceReset = (now - lastReset) div day_ms;
                   reset = (if daysSinceReset \<ge> 30
                            then updateUserSubscription st userId
                                   (\<lambda>r. r\<lparr>dailyUsageCount := Some ''0'', lastUsageReset := Some now\<rparr>) now
                            else Inr (None, st))
               in (case reset of
                     Inl e \<Rightarrow> (message_only 500 FailedToCheckUsage, st)
                   | Inr (row, st') \<Rightarrow>
                       let currentUsage = (if daysSinceReset \<ge> 30 then Num 0
                                           else parseInt (or_default (dailyUsageCount u) ''0''));
                           userLimit = (case subscriptionTier u of
                                          None \<Rightarrow> Own limits_free
                                        | Some t \<Rightarrow> (case get_property limits t of
                                                       Missing \<Rightarrow> Own limits_free
                                                     | found \<Rightarrow> found))
                       in (\<lparr>status = 200,
                            body = [(''canUse'', RBool (js_less currentUsage (userLimit_conversations userLimit))),
                                    (''currentUsage'', RNum currentUsage),
                                    (''limit'', (case userLimit of
                                                   Own l \<Rightarrow> RNum (Num (conversations l))
                                                 | _ \<Rightarrow> RUndefined)),
                                    (''tier'', (case subscriptionTier u of
                                                  None \<Rightarrow> RNull | Some t \<Rightarrow> RStr t)),
                                    (''daysUntilReset'', RNum (Num (30 - daysSinceReset)))]\<rparr>,
                           st'))))"

definition increment_usage_route :: "storage \<Rightarrow> int \<Rightarrow> string option \<Rightarrow> response \<times> storage" where
  "increment_usage_route st now auth =
     (case auth of
        None \<Rightarrow> (message_only 401 Unauthorized, st)
      | Some userId \<Rightarrow>
          (case getUser st userId of
             Inl e \<Rightarrow> (message_only 500 FailedToIncrementUsage, st)
           | Inr None \<Rightarrow> (message_only 404 UserNotFound, st)
           | Inr (Some u) \<Rightarrow>
               let newUsage = js_succ (parseInt (or_default (dailyUsageCount u) ''0''))
               in (case updateUserSubscription st userId
                          (\<lambda>r. r\<lparr>dailyUsageCount := Some (js_String newUsage)\<rparr>) now of
                     Inl e \<Rightarrow> (message_only 500 FailedToIncrementUsage, st)
                   | Inr (row, st') \<Rightarrow>
                       (\<lparr>status = 200,
                         body = [(''success'', RBool True), (''newUsage'', RNum newUsage)]\<rparr>, st'))))"

subsection \<open>The metered endpoints\<close>

text \<open>The 429 response of a denied request; the image endpoint adds a \<open>type\<close>.\<close>

definition limit_reached :: "usage_check \<Rightarrow> response" where
  "limit_reached c =
     \<lparr>status = 429,
      body = [(''message'', RMsg UsageLimitReached),
              (''currentUsage'', RNum (currentUsage c)),
              (''limit'', RLimit (limit c))]\<rparr>"

definition image_limit_reached :: "usage_check \<Rightarrow> response" where
  "image_limit_reached c =
     \<lparr>status = 429,
      body = [(''message'', RMsg ImageLimitReached),
              (''currentUsage'', RNum (currentUsage c)),
              (''limit'', RLimit (limit c)),
              (''type'', RStr ''image_limit_exceeded'')]\<rparr>"

record image_body =
  ib_name :: string
  ib_gender :: string
  ib_style :: string
  ib_audience :: string
  ib_scenario :: "string option"
  ib_backgroundPrompt :: "string option"

text \<open>\<open>POST /api/generate-image\<close>.  The provider answers with the URL of the image.  The text of
  the prompt is not modelled.  A failure to store the character is ignored.\<close>

definition generate_image_route ::
  "storage \<Rightarrow> int \<Rightarrow> string option \<Rightarrow> image_body \<Rightarrow> string answer
     \<Rightarrow> response \<times> storage \<times> provider_call list" where
  "generate_image_route st now auth b provider =
     (case auth of
        None \<Rightarrow> (message_only 401 Unauthorized, st, [])
      | Some userId \<Rightarrow>
          let imageUsageCheck = checkImageUsageLimit st userId in
          if \<not> canUse imageUsageCheck then (image_limit_reached imageUsageCheck, st, [])
          else
            (case provider of
               Ok imageUrl \<Rightarrow>
                 (case incrementUsage st userId imageGeneration now of
                    Inl e \<Rightarrow> (server_error ImageGenerationError e, st, [ImagesGenerations])
                  | Inr st1 \<Rightarrow>
                      let characterData =
                            \<lparr>sc_userId = userId, sc_name = ib_name b, sc_gender = ib_gender b,
                             sc_style = ib_style b, sc_imageUrl = imageUrl,
                             sc_audience = ib_audience b,
                             sc_scenario = (case ib_scenario b of
                                              None \<Rightarrow> None
                                            | Some s \<Rightarrow> if s = [] then None else Some s),
                             sc_backgroundPrompt = ib_backgroundPrompt b\<rparr>;
                          st2 = (case saveCharacter st1 characterData of
                                   Inl e \<Rightarrow> st1 | Inr s \<Rightarrow> s)
                      in (\<lparr>status = 200,
                           body = [(''imageUrl'', RStr imageUrl),
                                   (''character'', RObj [(''name'', RStr (ib_name b)),
                                                         (''gender'', RStr (ib_gender b)),
                                                         (''style'', RStr (ib_style b))]),
                                   (''message'', RMsg ImageGenerated)]\<rparr>,
                          st2, [ImagesGenerations]))
             | failed \<Rightarrow>
                 (server_error ImageGenerationError (answer_failure failed), st, [ImagesGenerations])))"

record dialogue_body =
  db_character :: "dialogue_character option"
  db_scenario :: "dialogue_scenario option"
  db_audience :: "string option"

text \<open>\<open>POST /api/generate-dialogue\<close>.\<close>

definition generate_dialogue_route ::
  "(jsstring \<Rightarrow> json option) \<Rightarrow> storage \<Rightarrow> int \<Rightarrow> string option \<Rightarrow> dialogue_body \<Rightarrow> completion
     \<Rightarrow> response \<times> storage \<times> provider_call list" where
  "generate_dialogue_route parse st now auth b provider =
     (case auth of
        None \<Rightarrow> (message_only 401 Unauthorized, st, [])
      | Some userId \<Rightarrow>
          let usageCheck = checkUsageLimit st userId in
          if \<not> canUse usageCheck then (limit_reached usageCheck, st, [])
          else
            (case generateDialogue parse provider
                    \<lparr>dr_audience = or_default (db_audience b) ''general'',
                     dr_character = db_character b, dr_scenario = db_scenario b\<rparr> of
               (Inl e, calls) \<Rightarrow> (server_error DialogueGenerationError e, st, calls)
             | (Inr dialogueResult, calls) \<Rightarrow>
                 (case incrementUsage st userId conversation now of
                    Inl e \<Rightarrow> (server_error DialogueGenerationError e, st, calls)
                  | Inr st' \<Rightarrow>
                      (\<lparr>status = 200,
                        body = [(''lines'', RItems (lines dialogueResult)),
                                (''focus_phrases'', RItems (focus_phrases dialogueResult)),
                                (''character'', (case db_character b of
                                                   None \<Rightarrow> RNull | Some c \<Rightarrow> RStr (dc_name c))),
                                (''message'', RMsg DialogueGenerated)]\<rparr>,
                       st', calls))))"

record tts_character =
  tc_gender :: "string option"
  tc_style :: "string option"

text \<open>A code unit of hiragana, katakana or the CJK ideographs, as in the regular expression of
  the route.\<close>

definition isJapanese :: "jsstring \<Rightarrow> bool" where
  "isJapanese text =
     (\<exists>c \<in> set text. (0x3040 \<le> c \<and> c \<le> 0x309F) \<or> (0x30A0 \<le> c \<and> c \<le> 0x30FF)
                      \<or> (0x4E00 \<le> c \<and> c \<le> 0x9FAF))"

text \<open>The voice chosen inline by the route for Japanese text (\<open>character?.gender\<close>,
  \<open>character?.style\<close>).\<close>

definition japaneseVoices :: "tts_character option \<Rightarrow> voice" where
  "japaneseVoices character =
     (let gender = (case character of None \<Rightarrow> None | Some c \<Rightarrow> tc_gender c);
          style = (case character of None \<Rightarrow> None | Some c \<Rightarrow> tc_style c)
      in if gender = Some ''female'' then
           (if style = Some ''cheerful'' then nova
            else if style = Some ''calm'' then nova
            else if style = Some ''strict'' then nova
            else nova)
         else
           (if style = Some ''cheerful'' then onyx
            else if style = Some ''calm'' then onyx
            else if style = Some ''strict'' then onyx
            else onyx))"

text \<open>\<open>POST /api/tts\<close>.  The provider answers with the audio, kept as its base64 text.\<close>

definition tts_route ::
  "storage \<Rightarrow> int \<Rightarrow> string option \<Rightarrow> jsstring \<Rightarrow> tts_character option \<Rightarrow> string answer
     \<Rightarrow> response \<times> storage \<times> provider_call list" where
  "tts_route st now auth text character provider =
     (case auth of
        None \<Rightarrow> (message_only 401 Unauthorized, st, [])
      | Some userId \<Rightarrow>
          let usageCheck = checkUsageLimit st userId in
          if \<not> canUse usageCheck then (limit_reached usageCheck, st, [])
          else
            let call = (if isJapanese text
                        then AudioSpeech (Voice (japaneseVoices character)) Speed08 text
                        else AudioSpeech
                               (getOpenAIVoiceForCharacter
                                  (or_default (case character of None \<Rightarrow> None | Some c \<Rightarrow> tc_style c)
                                     ''cheerful'')
                                  (or_default (case character of None \<Rightarrow> None | Some c \<Rightarrow> tc_gender c)
                                     ''female'')
                                  [])
                               Speed09 text)
            in (case provider of
                  Ok audioBase64 \<Rightarrow>
                    (case incrementUsage st userId tts now of
                       Inl e \<Rightarrow> (server_error SpeechGenerationError e, st, [call])
                     | Inr st' \<Rightarrow>
                         (\<lparr>status = 200,
                           body = [(''audioUrl'', RStr (''data:audio/mp3;base64,'' @ audioBase64)),
                                   (''message'', RMsg (if isJapanese text then JapaneseSpeechGenerated
                                                       else SpeechGenerated))]\<rparr>,
                          st', [call]))
                | failed \<Rightarrow> (server_error SpeechGenerationError (answer_failure failed), st, [call])))"

record history_turn =
  speaker :: string
  turn_text :: jsstring

record conversation_body =
  userInput :: jsstring
  conversationHistory :: "history_turn list"
  cb_character :: dialogue_character
  topic :: jsstring

text \<open>The message list built by \<open>POST /api/conversation-response\<close>: the system prompt, one
  message for each turn of the history received, then the user's input.\<close>

definition conversation_messages :: "conversation_body \<Rightarrow> (chat_role \<times> chat_content) list" where
  "conversation_messages b =
     [(RoleSystem, TutorPrompt (dc_name (cb_character b)) (dc_style (cb_character b)))]
     @ map (\<lambda>msg. (if speaker msg = ''user'' then RoleUser else RoleAssistant, Said (turn_text msg)))
         (conversationHistory b)
     @ [(RoleUser, Said (userInput b))]"

text \<open>\<open>POST /api/conversation-response\<close>.  The provider answers with the content of the first
  choice; \<open>rnd\<close> is \<open>Math.floor(Math.random() * 20)\<close>.\<close>

definition conversation_response_route ::
  "storage \<Rightarrow> int \<Rightarrow> string option \<Rightarrow> conversation_body \<Rightarrow> jsstring answer \<Rightarrow> nat
     \<Rightarrow> response \<times> storage \<times> provider_call list" where
  "conversation_response_route st now auth b provider rnd =
     (case auth of
        None \<Rightarrow> (message_only 401 Unauthorized, st, [])
      | Some userId \<Rightarrow>
          let usageCheck = checkUsageLimit st userId in
          if \<not> canUse usageCheck then (limit_reached usageCheck, st, [])
          else
            let call = ChatCompletion (conversation_messages b) in
            (case provider of
               Ok content \<Rightarrow>
                 (case incrementUsage st userId conversation now of
                    Inl e \<Rightarrow> (server_error ConversationError e, st, [call])
                  | Inr st' \<Rightarrow>
                      (\<lparr>status = 200,
                        body = [(''response'', RText content),
                                (''feedback'', RObj [(''accuracy'', RNum (Num (int rnd + 80)))]),
                                (''message'', RMsg DialogueGenerated)]\<rparr>,
                       st', [call]))
             | failed \<Rightarrow> (server_error ConversationError (answer_failure failed), st, [call])))"

section \<open>Speech recognition and contextual replies (services/speech-recognition)\<close>

record speech_request =
  audioBlob :: string
  language :: string

record speech_result =
  recognized :: jsstring
  confidence :: real

text \<open>The list \<open>commonHallucinations\<close>, in UTF-16 code units: ten Japanese phrases,
  \<open>Thank you for watching\<close>, \<open>Thanks for watching\<close> and two Korean phrases.\<close>

definition commonHallucinations :: "jsstring list" where
  "commonHallucinations =
     [[0x3075, 0x3045], [0x3093], [0x3042], [0x3048], [0x3046], [0x304A], [0x3046, 0x3093],
      [0x304A, 0x3057, 0x307E, 0x3044],
      [0x3054, 0x8996, 0x8074, 0x3042, 0x308A, 0x304C, 0x3068, 0x3046],
      [0x3042, 0x308A, 0x304C, 0x3068, 0x3046, 0x3054, 0x3056, 0x3044, 0x307E, 0x3057, 0x305F],
      ascii ''Thank you for watching'',
      ascii ''Thanks for watching'',
      [0xC2DC, 0xCCAD, 0xD574, 0xC8FC, 0xC154, 0xC11C, 0x0020, 0xAC10, 0xC0AC, 0xD569, 0xB2C8, 0xB2E4],
      [0xAC10, 0xC0AC, 0xD569, 0xB2C8, 0xB2E4]]"

text \<open>The regular expression of the filter: one or more of eight hiragana and nothing else.\<close>

definition only_filler :: "jsstring \<Rightarrow> bool" where
  "only_filler s =
     (s \<noteq> [] \<and> (\<forall>c \<in> set s. c \<in> {0x3042, 0x3044, 0x3046, 0x3048, 0x304A, 0x3093, 0x3075, 0x3045}))"

definition is_hallucination :: "jsstring \<Rightarrow> bool" where
  "is_hallucination resultText =
     (resultText = [] \<or> length resultText < 2
      \<or> (\<exists>hall \<in> set commonHallucinations. js_includes resultText hall)
      \<or> only_filler resultText)"

text \<open>
  \<open>recognizeSpeech(request)\<close>.  \<open>apiKey\<close> says whether the provider key is configured,
  \<open>decode\<close> is \<open>Buffer.from(_, 'base64')\<close>, \<open>transcription\<close> is the text that the provider
  returns if it is called (\<open>None\<close>: the call throws).  The temporary file is not modelled.
  The key check throws outside the \<open>try\<close> block; every failure inside is rethrown wrapped.
\<close>

definition recognizeSpeech ::
  "bool \<Rightarrow> (string \<Rightarrow> 8 word list) \<Rightarrow> jsstring option \<Rightarrow> speech_request
     \<Rightarrow> (failure + speech_result) \<times> provider_call list" where
  "recognizeSpeech apiKey decode transcription request =
     (if \<not> apiKey then (Inl ApiKeyNotConfigured, [])
      else
        let audioBuffer = decode (audioBlob request) in
        if length audioBuffer < 1000 then (Inl (SpeechRecognitionFailed AudioTooShort), [])
        else
          let call = AudioTranscriptions
                       (if language request = ''ja'' then ''ja''
                        else if language request = ''en'' then ''en'' else ''ko'')
          in (case transcription of
                None \<Rightarrow> (Inl (SpeechRecognitionFailed ProviderFailure), [call])
              | Some t \<Rightarrow>
                  let resultText = js_trim t in
                  if is_hallucination resultText
                  then (Inl (SpeechRecognitionFailed SilenceOrNoise), [call])
                  else (Inr \<lparr>recognized = resultText, confidence = 0.9\<rparr>, [call])))"

text \<open>\<open>POST /api/speech-recognition\<close>; the endpoint is not metered.\<close>

definition speech_recognition_route ::
  "bool \<Rightarrow> (string \<Rightarrow> 8 word list) \<Rightarrow> jsstring option \<Rightarrow> string option
     \<Rightarrow> string option \<Rightarrow> string option \<Rightarrow> response \<times> provider_call list" where
  "speech_recognition_route apiKey decode transcription auth blob lang =
     (case auth of
        None \<Rightarrow> (message_only 401 Unauthorized, [])
      | Some userId \<Rightarrow>
          if or_default blob [] = [] then (message_only 400 AudioDataRequired, [])
          else
            (case recognizeSpeech apiKey decode transcription
                    \<lparr>audioBlob = or_default blob [], language = or_default lang ''ja''\<rparr> of
               (Inl e, calls) \<Rightarrow> (server_error SpeechRecognitionError e, calls)
             | (Inr result, calls) \<Rightarrow>
                 (\<lparr>status = 200,
                   body = [(''text'', RText (recognized result)),
                           (''confidence'', RReal (confidence result)),
                           (''message'', RMsg SpeechRecognized)]\<rparr>, calls)))"

text \<open>The reply used when the provider's JSON has no truthy \<open>response\<close> (a Japanese sentence
  of 34 code units).\<close>

definition default_reply :: jsstring where
  "default_reply =
     [0x3059, 0x307F, 0x307E, 0x305B, 0x3093, 0x3001, 0x3088, 0x304F,
      0x308F, 0x304B, 0x308A, 0x307E, 0x305B, 0x3093, 0x3067, 0x3057,
      0x305F, 0x3002, 0x4ED6, 0x306E, 0x8A00, 0x3044, 0x65B9, 0x3067,
      0x8A71, 0x3057, 0x3066, 0x307F, 0x3066, 0x304F, 0x3060, 0x3055,
      0x3044, 0x3002]"

text \<open>\<open>xs.slice(-n)\<close>: the last \<open>n\<close> elements, all of them when there are fewer.\<close>

definition slice_last :: "nat \<Rightarrow> 'a list \<Rightarrow> 'a list" where
  "slice_last n xs = drop (length xs - n) xs"

fun join_lines :: "jsstring list \<Rightarrow> jsstring" where
  "join_lines [] = []"
| "join_lines [x] = x"
| "join_lines (x # y # ys) = x @ [0x0A] @ join_lines (y # ys)"

definition historyText :: "history_turn list \<Rightarrow> jsstring" where
  "historyText history =
     join_lines (map (\<lambda>turn. ascii (speaker turn) @ [0x3A, 0x20] @ turn_text turn)
                   (slice_last 6 history))"

record conversation_reply =
  reply_response :: json
  reply_feedback :: "json option"
  reply_shouldEndConversation :: json
  reply_endingMessage :: "json option"

text \<open>\<open>a || b\<close> on a member that may be \<open>undefined\<close>.\<close>

definition or_json :: "json option \<Rightarrow> json \<Rightarrow> json" where
  "or_json v d = (case v of None \<Rightarrow> d | Some x \<Rightarrow> if truthy (Some x) then x else d)"

text \<open>\<open>generateConversationResponse(userInput, conversationHistory, character, topic)\<close>; the
  provider answers as for \<open>generateDialogue\<close>, and a missing content is parsed as \<open>{}\<close>.\<close>

definition generateConversationResponse ::
  "bool \<Rightarrow> (jsstring \<Rightarrow> json option) \<Rightarrow> completion
     \<Rightarrow> jsstring \<Rightarrow> history_turn list \<Rightarrow> dialogue_character \<Rightarrow> jsstring
     \<Rightarrow> (failure + conversation_reply) \<times> provider_call list" where
  "generateConversationResponse apiKey parse c said history character about =
     (if \<not> apiKey then (Inl ApiKeyNotConfigured, [])
      else
        let call = ConversationCompletion
                     \<lparr>cp_name = dc_name character, cp_topic = about,
                      cp_historyText = historyText history,
                      cp_userInput = said,
                      cp_shouldConsiderEnding = (length history \<ge> 10)\<rparr>
        in (case c of
              CompletionThrows \<Rightarrow> (Inl (ConversationGenerationFailed ProviderFailure), [call])
            | CompletionContent content \<Rightarrow>
                (case parse (case content of None \<Rightarrow> ascii ''{}''
                                           | Some t \<Rightarrow> if t = [] then ascii ''{}'' else t) of
                   None \<Rightarrow> (Inl (ConversationGenerationFailed SyntaxError), [call])
                 | Some result \<Rightarrow>
                     (case (get_member result ''response'', get_member result ''feedback'',
                            get_member result ''shouldEndConversation'',
                            get_member result ''endingMessage'') of
                        (Inr r, Inr f, Inr s, Inr m) \<Rightarrow>
                          (Inr \<lparr>reply_response = or_json r (JStr default_reply),
                                reply_feedback = f,
                                reply_shouldEndConversation = or_json s (JBool False),
                                reply_endingMessage = m\<rparr>, [call])
                      | _ \<Rightarrow> (Inl (ConversationGenerationFailed TypeError), [call])))))"

section \<open>The scene screen of the client\<close>

text \<open>
  The state that \<open>processUserResponse\<close> reads and writes, and the results of the requests it
  awaits.  \<open>apiRequest\<close> throws on a response that is not OK, so a request either fails or
  yields the parsed body.
\<close>

datatype annotation = Annotated jsstring | PlaceholderEmpty | PlaceholderFailed

record feedback =
  accuracy :: int
  needsCorrection :: bool
  betterExpression :: "jsstring option"

record dialogue_turn =
  dt_speaker :: string
  dt_text :: jsstring
  dt_audioUrl :: "string option"
  dt_koreanTranslation :: "annotation option"
  dt_pronunciation :: "annotation option"
  dt_feedback :: "feedback option"
  dt_emotion :: "string option"

datatype toast = DidntCatchThat | ExpressionCorrection | ScenarioComplete
  | MoreNaturalExpression | Perfect | SceneError

record scene =
  dialogueHistory :: "dialogue_turn list"
  sceneProgress :: nat
  awaitingRetry :: bool
  conversationEnded :: bool
  recordedConversation :: "(string \<times> jsstring) list"

record client_character =
  cc_name :: string
  cc_gender :: string
  cc_style :: string

datatype 'a api = ApiError | ApiOk 'a

record contextual_body =
  cr_response :: "jsstring option"
  cr_feedback :: "feedback option"
  cr_shouldEndConversation :: "bool option"

record contextual =
  ctx_text :: jsstring
  ctx_feedback :: feedback
  ctx_emotion :: string
  ctx_shouldEndConversation :: bool

record translation_body =
  tr_koreanTranslation :: "jsstring option"
  tr_pronunciation :: "jsstring option"

text \<open>The requests that the screen sends to the server.\<close>

datatype client_request =
    SpeechRecognitionRequest
  | ConversationResponseRequest jsstring "history_turn list"
  | TtsRequest jsstring voice
  | TranslatePronunciationRequest jsstring

definition getVoiceForCharacter :: "string \<Rightarrow> string \<Rightarrow> voice" where
  "getVoiceForCharacter gender style =
     (if gender = ''female'' then
        (if style = ''cheerful'' then shimmer
         else if style = ''calm'' then alloy
         else if style = ''strict'' then nova
         else alloy)
      else
        (if style = ''cheerful'' then echo
         else if style = ''calm'' then fable
         else if style = ''strict'' then onyx
         else fable))"

text \<open>The two fixed English sentences of \<open>generateContextualResponse\<close>.\<close>

definition please_continue :: jsstring where
  "please_continue = ascii ''That'' @ [0x27] @ ascii ''s interesting! Please continue.''"

definition tell_me_more :: jsstring where
  "tell_me_more = ascii ''I see! Please tell me more about that.''"

text \<open>\<open>generateContextualResponse(userInput)\<close>: the whole \<open>dialogueHistory\<close> that the handler
  sees is posted to \<open>/api/conversation-response\<close>; a failure yields a fixed fallback.\<close>

definition generateContextualResponse ::
  "scene \<Rightarrow> jsstring \<Rightarrow> contextual_body api \<Rightarrow> contextual \<times> client_request list" where
  "generateContextualResponse s said reply =
     (let request = ConversationResponseRequest said
                      (map (\<lambda>turn. \<lparr>speaker = dt_speaker turn, turn_text = dt_text turn\<rparr>)
                         (dialogueHistory s))
      in case reply of
           ApiError \<Rightarrow>
             (\<lparr>ctx_text = tell_me_more,
               ctx_feedback = \<lparr>accuracy = 75, needsCorrection = False, betterExpression = None\<rparr>,
               ctx_emotion = ''neutral'', ctx_shouldEndConversation = False\<rparr>, [request])
         | ApiOk r \<Rightarrow>
             (\<lparr>ctx_text = (case cr_response r of
                             None \<Rightarrow> please_continue
                           | Some t \<Rightarrow> if t = [] then please_continue else t),
               ctx_feedback = (case cr_feedback r of
                                 None \<Rightarrow> \<lparr>accuracy = 80, needsCorrection = False,
                                          betterExpression = None\<rparr>
                               | Some f \<Rightarrow> f),
               ctx_emotion = ''professional'',
               ctx_shouldEndConversation = (case cr_shouldEndConversation r of
                                              None \<Rightarrow> False | Some b \<Rightarrow> b)\<rparr>, [request]))"

definition annotate :: "jsstring option \<Rightarrow> annotation" where
  "annotate v = (case v of None \<Rightarrow> PlaceholderEmpty
                 | Some t \<Rightarrow> if t = [] then PlaceholderEmpty else Annotated t)"

text \<open>
  \<open>processUserResponse\<close>, with the recorded blob (its size is the number of bytes) and the
  results of the four requests it may await.  It returns the scene, the toasts shown and the
  requests sent.
\<close>

definition processUserResponse ::
  "client_character \<Rightarrow> scene \<Rightarrow> 8 word list \<Rightarrow> jsstring option api \<Rightarrow> contextual_body api
     \<Rightarrow> string option api \<Rightarrow> translation_body api
     \<Rightarrow> scene \<times> toast list \<times> client_request list" where
  "processUserResponse character s audioBlob' speech reply speechAudio translation =
     (if length audioBlob' < 1000 then (s, [], [])
      else
        (case speech of
           ApiError \<Rightarrow> (s, [SceneError], [SpeechRecognitionRequest])
         | ApiOk recognizedText \<Rightarrow>
             let userText = (case recognizedText of None \<Rightarrow> [] | Some t \<Rightarrow> js_trim t) in
             if userText = [] then (s, [DidntCatchThat], [SpeechRecognitionRequest])
             else
               let userTurn = \<lparr>dt_speaker = ''user'', dt_text = userText, dt_audioUrl = None,
                                dt_koreanTranslation = None, dt_pronunciation = None,
                                dt_feedback = None, dt_emotion = None\<rparr>;
                   s1 = s\<lparr>dialogueHistory := dialogueHistory s @ [userTurn],
                          recordedConversation := recordedConversation s @ [(''You'', userText)]\<rparr>;
                   (contextualResponse, sent) = generateContextualResponse s userText reply;
                   requests1 = SpeechRecognitionRequest # sent
               in
                 if needsCorrection (ctx_feedback contextualResponse)
                 then (s1\<lparr>awaitingRetry := True\<rparr>, [ExpressionCorrection], requests1)
                 else
                   let replyText = ctx_text contextualResponse;
                       s2 = s1\<lparr>recordedConversation :=
                                  recordedConversation s1 @ [(cc_name character, replyText)]\<rparr>;
                       s3 = (if ctx_shouldEndConversation contextualResponse
                             then s2\<lparr>conversationEnded := True\<rparr> else s2);
                       toasts3 = (if ctx_shouldEndConversation contextualResponse
                                  then [ScenarioComplete] else []);
                       requests3 = requests1
                         @ [TtsRequest replyText
                              (getVoiceForCharacter (cc_gender character) (cc_style character))]
                   in
                     (case speechAudio of
                        ApiError \<Rightarrow> (s3, toasts3 @ [SceneError], requests3)
                      | ApiOk audioUrl \<Rightarrow>
                          let (koreanTranslation, pronunciation) =
                                (case translation of
                                   ApiError \<Rightarrow> (PlaceholderFailed, PlaceholderFailed)
                                 | ApiOk t \<Rightarrow> (annotate (tr_koreanTranslation t),
                                              annotate (tr_pronunciation t)));
                              characterResponse =
                                \<lparr>dt_speaker = ''character'', dt_text = replyText,
                                 dt_audioUrl = audioUrl,
                                 dt_koreanTranslation = Some koreanTranslation,
                                 dt_pronunciation = Some pronunciation,
                                 dt_feedback = Some (ctx_feedback contextualResponse),
                                 dt_emotion = Some (ctx_emotion contextualResponse)\<rparr>;
                              fb = ctx_feedback contextualResponse;
                              toasts4 = (if betterExpression fb \<noteq> None \<and> betterExpression fb \<noteq> Some []
                                         then [MoreNaturalExpression]
                                         else if accuracy fb \<ge> 90 then [Perfect] else [])
                          in (s3\<lparr>dialogueHistory := dialogueHistory s3 @ [characterResponse],
                                 sceneProgress := min (sceneProgress s3 + 15) 100,
                                 awaitingRetry := False\<rparr>,
                              toasts3 @ toasts4,
                              requests3 @ [TranslatePronunciationRequest replyText]))))"

section \<open>Concrete states and inputs\<close>

definition free_user :: "string \<Rightarrow> user" where
  "free_user n = \<lparr>email = Some ''learner@example.com'', isAdmin = Some False,
     subscriptionTier = Some ''free'', conversationCount = Some n,
     imageGenerationCount = Some ''1'', ttsUsageCount = Some ''0'', dailyUsageCount = Some ''0'',
     monthlyImageCount = Some ''0'', lastUsageReset = Some 0, updatedAt = None\<rparr>"

definition example_store :: storage where
  "example_store = \<lparr>users = [''u1'' \<mapsto> free_user ''29'', ''u2'' \<mapsto> free_user ''30'',
       ''u3'' \<mapsto> (free_user ''5000'')\<lparr>email := Some ''mainstop3@gmail.com''\<rparr>,
       ''u4'' \<mapsto> (free_user ''0'')\<lparr>imageGenerationCount := None\<rparr>],
     savedCharacters = [], available = True\<rparr>"

text \<open>A parser that knows two contents: \<open>A\<close> is a well-formed dialogue, \<open>B\<close> has only two
  lines.\<close>

definition three_phrases :: json where
  "three_phrases = JArr [JStr [0x306F, 0x3044], JStr [0x3069, 0x3046, 0x305E], JStr [0x307E, 0x305F]]"

definition example_parse :: "jsstring \<Rightarrow> json option" where
  "example_parse s =
     (if s = ascii ''A''
      then Some (JObj [(''lines'', three_phrases), (''focus_phrases'', three_phrases)])
      else if s = ascii ''B''
      then Some (JObj [(''lines'', JArr [JStr [0x306F, 0x3044], JStr [0x307E, 0x305F]]),
                       (''focus_phrases'', three_phrases)])
      else None)"

definition example_dialogue_request :: dialogue_request where
  "example_dialogue_request =
     \<lparr>dr_audience = ''general'',
      dr_character = Some \<lparr>dc_name = ''Yuki'', dc_style = ''cheerful''\<rparr>,
      dr_scenario = Some \<lparr>freeText = None, presetKey = Some ''cafeteria''\<rparr>\<rparr>"


definition example_dialogue_body :: dialogue_body where
  "example_dialogue_body =
     \<lparr>db_character = Some \<lparr>dc_name = ''Yuki'', dc_style = ''cheerful''\<rparr>,
      db_scenario = Some \<lparr>freeText = None, presetKey = Some ''cafeteria''\<rparr>,
      db_audience = Some ''general''\<rparr>"


text \<open>A recording of 500 bytes and one of 1000 bytes, and the decoder of two payloads.\<close>

definition short_audio :: "8 word list" where
  "short_audio = replicate 500 0"

definition long_audio :: "8 word list" where
  "long_audio = replicate 1000 0"

definition example_decode :: "string \<Rightarrow> 8 word list" where
  "example_decode blob = (if blob = ''short'' then short_audio else long_audio)"

definition example_character :: client_character where
  "example_character = \<lparr>cc_name = ''Yuki'', cc_gender = ''female'', cc_style = ''cheerful''\<rparr>"

definition opening_turn :: dialogue_turn where
  "opening_turn =
     \<lparr>dt_speaker = ''character'', dt_text = [0x3069, 0x3046, 0x305E], dt_audioUrl = None,
      dt_koreanTranslation = None, dt_pronunciation = None, dt_feedback = None,
      dt_emotion = Some ''professional''\<rparr>"

definition example_scene :: scene where
  "example_scene =
     \<lparr>dialogueHistory = [opening_turn], sceneProgress = 10, awaitingRetry = False,
      conversationEnded = False, recordedConversation = []\<rparr>"

text \<open>A history of eight turns, numbered by their text.\<close>

definition numbered_turn :: "nat \<Rightarrow> history_turn" where
  "numbered_turn n =
     \<lparr>speaker = (if even n then ''character'' else ''user''), turn_text = [0x30 + of_nat n]\<rparr>"

definition long_history :: "history_turn list" where
  "long_history = map numbered_turn [1, 2, 3, 4, 5, 6, 7, 8]"

definition long_conversation_body :: conversation_body where
  "long_conversation_body =
     \<lparr>userInput = [0x306F, 0x3044], conversationHistory = long_history,
      cb_character = \<lparr>dc_name = ''Yuki'', dc_style = ''cheerful''\<rparr>,
      topic = ascii ''cafeteria''\<rparr>"

text \<open>A free-tier user who has used up the conversation and image quotas and whose last
  reset was at time 0; a pro-tier user whose two conversation counters both read 700.\<close>

definition stale_user :: user where
  "stale_user = \<lparr>email = Some ''learner@example.com'', isAdmin = Some False,
     subscriptionTier = Some ''free'', conversationCount = Some ''30'',
     imageGenerationCount = Some ''1'', ttsUsageCount = Some ''12'', dailyUsageCount = Some ''30'',
     monthlyImageCount = Some ''1'', lastUsageReset = Some 0, updatedAt = None\<rparr>"

definition pro_user :: user where
  "pro_user = \<lparr>email = Some ''pro@example.com'', isAdmin = Some False,
     subscriptionTier = Some ''pro'', conversationCount = Some ''700'',
     imageGenerationCount = Some ''0'', ttsUsageCount = Some ''0'', dailyUsageCount = Some ''700'',
     monthlyImageCount = Some ''0'', lastUsageReset = Some 0, updatedAt = None\<rparr>"

definition stale_store :: storage where
  "stale_store = \<lparr>users = [''u1'' \<mapsto> stale_user, ''u2'' \<mapsto> pro_user],
     savedCharacters = [], available = True\<rparr>"

text \<open>Users of every tier, of an unknown tier and without a tier, each with a conversation
  counter and an image counter; a free-tier user who has synthesized speech 5000 times and one
  who has synthesized none and has used up the conversations; a user whose tier is the inherited
  name \<open>constructor\<close>.\<close>

definition tier_user :: "string option \<Rightarrow> string \<Rightarrow> string \<Rightarrow> string \<Rightarrow> user" where
  "tier_user tier conversations' images' speech =
     \<lparr>email = Some ''learner@example.com'', isAdmin = None, subscriptionTier = tier,
      conversationCount = Some conversations', imageGenerationCount = Some images',
      ttsUsageCount = Some speech, dailyUsageCount = Some ''0'', monthlyImageCount = Some ''0'',
      lastUsageReset = Some 0, updatedAt = None\<rparr>"

definition tier_store :: storage where
  "tier_store =
     \<lparr>users = [''f'' \<mapsto> tier_user (Some ''free'') ''29'' ''1'' ''0'',
               ''s'' \<mapsto> tier_user (Some ''starter'') ''300'' ''14'' ''0'',
               ''p'' \<mapsto> tier_user (Some ''pro'') ''999'' ''25'' ''0'',
               ''m'' \<mapsto> tier_user (Some ''premium'') ''5000'' ''59'' ''0'',
               ''g'' \<mapsto> tier_user (Some ''gold'') ''30'' ''0'' ''0'',
               ''n'' \<mapsto> tier_user None ''29'' ''1'' ''0'',
               ''t'' \<mapsto> tier_user (Some ''free'') ''0'' ''0'' ''5000'',
               ''q'' \<mapsto> tier_user (Some ''free'') ''30'' ''0'' ''0'',
               ''c'' \<mapsto> tier_user (Some ''constructor'') ''0'' ''0'' ''0''],
      savedCharacters = [], available = True\<rparr>"

section \<open>Properties of the number conversions\<close>

lemma digit_value_decimal:
  assumes "d < 10"
  shows "digit_value 10 (char_of (48 + d)) = Some d"
proof -
  have "of_char (char_of (48 + d) :: char) = 48 + d"
    using assms by (simp add: of_char_of)
  then show ?thesis
    using assms by (simp add: digit_value_def Let_def)
qed

lemma digits_prefix_append:
  assumes "\<forall>c \<in> set s. digit_value r c \<noteq> None"
  shows "digits_prefix r (s @ t) = map (\<lambda>c. the (digit_value r c)) s @ digits_prefix r t"
  using assms by (induction s) auto

lemma decimal_digits: "\<forall>c \<in> set (decimal n). digit_value 10 c \<noteq> None"
proof (induction n rule: decimal.induct)
  case (1 n)
  show ?case
  proof (cases "n < 10")
    case True
    then show ?thesis
      by (subst decimal.simps) (simp add: digit_value_decimal)
  next
    case False
    have "n mod 10 < 10" by simp
    with False 1 show ?thesis
      by (subst decimal.simps) (simp add: digit_value_decimal)
  qed
qed

lemma digits_number_snoc: "digits_number r (ds @ [d]) = digits_number r ds * r + d"
  by (simp add: digits_number_def)

lemma decimal_value:
  "digits_number 10 (map (\<lambda>c. the (digit_value 10 c)) (decimal n)) = n"
proof (induction n rule: decimal.induct)
  case (1 n)
  show ?case
  proof (cases "n < 10")
    case True
    then show ?thesis
      by (subst decimal.simps) (simp add: digit_value_decimal digits_number_def)
  next
    case False
    have m: "n mod 10 < 10" by simp
    from False 1 have ih: "digits_number 10 (map (\<lambda>c. the (digit_value 10 c)) (decimal (n div 10))) = n div 10"
      by simp
    show ?thesis
      using False
      by (subst decimal.simps) (simp add: digits_number_snoc ih digit_value_decimal [OF m])
  qed
qed

lemma decimal_nonempty: "decimal n \<noteq> []"
  by (subst decimal.simps) simp

lemma decimal_prefix: "digits_prefix 10 (decimal n) = map (\<lambda>c. the (digit_value 10 c)) (decimal n)"
  using digits_prefix_append [OF decimal_digits, of n "[]"] by simp


lemma is_digit_char_facts:
  assumes "is_digit_char c"
  shows "\<not> is_js_space c" "c \<noteq> CHR ''-''" "c \<noteq> CHR ''+''" "c \<noteq> CHR ''x''" "c \<noteq> CHR ''X''"
    "digit_value 10 c \<noteq> None"
  using assms by (auto simp: is_digit_char_def is_js_space_def digit_value_def Let_def)

lemma parseInt_numeral:
  assumes "s \<noteq> []" "\<forall>c \<in> set s. is_digit_char c"
  shows "parseInt s = Num (int (digits_number 10 (map (\<lambda>c. the (digit_value 10 c)) s)))"
proof -
  from assms obtain a r where s: "s = a # r" by (cases s) auto
  with assms have a: "is_digit_char a" by simp
  have dw: "dropWhile is_js_space s = s"
    using s is_digit_char_facts(1) [OF a] by simp
  have nohex: "(case s of a # b # r \<Rightarrow> if a = CHR ''0'' \<and> (b = CHR ''x'' \<or> b = CHR ''X'')
                                       then (16, r) else (10, s)
                        | _ \<Rightarrow> (10 :: nat, s)) = (10, s)"
  proof (cases r)
    case Nil
    with s show ?thesis by simp
  next
    case (Cons b r')
    with s assms have "is_digit_char b" by simp
    from is_digit_char_facts(4,5) [OF this] s Cons show ?thesis by simp
  qed
  have all: "\<forall>c \<in> set s. digit_value 10 c \<noteq> None"
    using assms is_digit_char_facts(6) by blast
  have pre: "digits_prefix 10 s = map (\<lambda>c. the (digit_value 10 c)) s"
    using digits_prefix_append [OF all, of "[]"] by simp
  have ne: "map (\<lambda>c. the (digit_value 10 c)) s \<noteq> []"
    using assms by simp
  have sign: "(case s of [] \<Rightarrow> (False, s)
                | c # r \<Rightarrow> if c = CHR ''-'' then (True, r)
                          else if c = CHR ''+'' then (False, r)
                          else (False, s)) = (False, s)"
    using s is_digit_char_facts(2,3) [OF a] by simp
  show ?thesis
    unfolding parseInt_def Let_def dw sign prod.case nohex pre
    using ne by simp
qed

lemma decimal_is_digits: "\<forall>c \<in> set (decimal n). is_digit_char c"
proof (induction n rule: decimal.induct)
  case (1 n)
  have d: "is_digit_char (char_of (48 + k))" if "k < 10" for k :: nat
    using that by (simp add: is_digit_char_def of_char_of)
  show ?case
  proof (cases "n < 10")
    case True
    then show ?thesis
      by (subst decimal.simps) (simp add: d)
  next
    case False
    have "n mod 10 < 10" by simp
    with False 1 show ?thesis
      by (subst decimal.simps) (simp add: d)
  qed
qed

lemma parseInt_decimal: "parseInt (decimal n) = Num (int n)"
  using parseInt_numeral [OF decimal_nonempty decimal_is_digits] by (simp add: decimal_value)

lemma parseInt_minus_decimal: "parseInt (CHR ''-'' # decimal n) = Num (- int n)"
proof -
  obtain a r where s: "decimal n = a # r"
    using decimal_nonempty by (cases "decimal n") auto
  with decimal_is_digits [of n] have a: "is_digit_char a" by simp
  have nohex: "(case decimal n of a # b # r \<Rightarrow> if a = CHR ''0'' \<and> (b = CHR ''x'' \<or> b = CHR ''X'')
                                       then (16, r) else (10, decimal n)
                        | _ \<Rightarrow> (10 :: nat, decimal n)) = (10, decimal n)"
  proof (cases r)
    case Nil
    with s show ?thesis by simp
  next
    case (Cons b r')
    with s decimal_is_digits [of n] have "is_digit_char b" by simp
    from is_digit_char_facts(4,5) [OF this] s Cons show ?thesis by simp
  qed
  have ne: "digits_prefix 10 (decimal n) \<noteq> []"
    using decimal_prefix decimal_nonempty by simp
  have dw: "dropWhile is_js_space (CHR ''-'' # decimal n) = CHR ''-'' # decimal n"
    by (simp add: is_js_space_def)
  have sign: "(case CHR ''-'' # decimal n of [] \<Rightarrow> (False, CHR ''-'' # decimal n)
                | c # r \<Rightarrow> if c = CHR ''-'' then (True, r)
                          else if c = CHR ''+'' then (False, r)
                          else (False, CHR ''-'' # decimal n)) = (True, decimal n)"
    by simp
  show ?thesis
    unfolding parseInt_def Let_def dw sign prod.case nohex
    using ne by (simp add: decimal_prefix decimal_value)
qed

text \<open>Reading back a number that \<open>String\<close> has written gives that number: a counter written
  by the code is read as the value that was written.\<close>

lemma parseInt_js_String: "parseInt (js_String (Num i)) = Num i"
  by (simp add: js_String_def parseInt_decimal parseInt_minus_decimal)

lemma parseInt_NaN: "parseInt ''NaN'' = NaN"
  by code_simp

lemma js_String_nonempty: "js_String x \<noteq> []"
  by (cases x) (simp_all add: js_String_def decimal_nonempty)

lemma parseInt_js_String_any: "parseInt (js_String x) = x"
proof (cases x)
  case (Num i)
  then show ?thesis by (simp add: parseInt_js_String)
next
  case NaN
  then show ?thesis by (simp add: js_String_def parseInt_NaN)
qed

lemma counter_written_read:
  "parseInt (or_default (Some (js_String x)) ''0'') = x"
  by (simp add: js_String_nonempty parseInt_js_String_any)

section \<open>Properties of the quota checks\<close>

lemma get_property_written:
  assumes "map_of literal key = Some v"
  shows "get_property literal key = Own v"
  using assms by (simp add: get_property_def)

lemma get_property_unwritten:
  assumes "map_of literal key = None"
  shows "get_property literal key =
           (if key \<in> set object_prototype_names then Inherited key else Missing)"
  using assms by (simp add: get_property_def)

lemma tier_limits:
  "lookup_or conversation_limits ''free'' 30 = Limit 30"
  "lookup_or conversation_limits ''starter'' 30 = Limit 300"
  "lookup_or conversation_limits ''pro'' 30 = Limit 1000"
  "lookup_or conversation_limits ''premium'' 30 = Limit 5000"
  "lookup_or imageLimits ''free'' 1 = Limit 1"
  "lookup_or imageLimits ''starter'' 1 = Limit 15"
  "lookup_or imageLimits ''pro'' 1 = Limit 25"
  "lookup_or imageLimits ''premium'' 1 = Limit 60"
  by (simp_all add: lookup_or_def get_property_def conversation_limits_def imageLimits_def)


lemma inherited_tier_limits:
  assumes "tier \<in> set object_prototype_names"
  shows "lookup_or conversation_limits tier 30 = InheritedLimit tier"
    and "lookup_or imageLimits tier 1 = InheritedLimit tier"
  using assms
  by (auto simp: lookup_or_def get_property_def conversation_limits_def imageLimits_def
        object_prototype_names_def)



lemma check_found:
  assumes "getUser st uid = Inr (Some u)" "\<not> admin_bypass u"
  shows "checkUsageLimit st uid =
           \<lparr>canUse = js_below (parseInt (or_default (conversationCount u) ''0''))
                        (lookup_or conversation_limits (or_default (subscriptionTier u) ''free'') 30),
            currentUsage = parseInt (or_default (conversationCount u) ''0''),
            limit = lookup_or conversation_limits (or_default (subscriptionTier u) ''free'') 30\<rparr>"
  using assms by (simp add: checkUsageLimit_def Let_def)

lemma image_check_found:
  assumes "getUser st uid = Inr (Some u)" "\<not> admin_bypass u"
  shows "checkImageUsageLimit st uid =
           \<lparr>canUse = js_below (parseInt (or_default (imageGenerationCount u) ''0''))
                        (lookup_or imageLimits (or_default (subscriptionTier u) ''free'') 1),
            currentUsage = parseInt (or_default (imageGenerationCount u) ''0''),
            limit = lookup_or imageLimits (or_default (subscriptionTier u) ''free'') 1\<rparr>"
  using assms by (simp add: checkImageUsageLimit_def Let_def)







lemma tier_store_lookup:
  "getUser tier_store ''f'' = Inr (Some (tier_user (Some ''free'') ''29'' ''1'' ''0''))"
  "getUser tier_store ''s'' = Inr (Some (tier_user (Some ''starter'') ''300'' ''14'' ''0''))"
  "getUser tier_store ''p'' = Inr (Some (tier_user (Some ''pro'') ''999'' ''25'' ''0''))"
  "getUser tier_store ''m'' = Inr (Some (tier_user (Some ''premium'') ''5000'' ''59'' ''0''))"
  "getUser tier_store ''g'' = Inr (Some (tier_user (Some ''gold'') ''30'' ''0'' ''0''))"
  "getUser tier_store ''n'' = Inr (Some (tier_user None ''29'' ''1'' ''0''))"
  "getUser tier_store ''t'' = Inr (Some (tier_user (Some ''free'') ''0'' ''0'' ''5000''))"
  "getUser tier_store ''q'' = Inr (Some (tier_user (Some ''free'') ''30'' ''0'' ''0''))"
  "getUser tier_store ''c'' = Inr (Some (tier_user (Some ''constructor'') ''0'' ''0'' ''0''))"
  "getUser tier_store ''z'' = Inr None"
  "getUser (tier_store\<lparr>available := False\<rparr>) ''f'' = Inl StorageFailure"
  by (simp_all add: getUser_def tier_store_def)

lemma tier_user_fields:
  "\<not> admin_bypass (tier_user tier a b c)"
  "subscriptionTier (tier_user tier a b c) = tier"
  "conversationCount (tier_user tier a b c) = Some a"
  "imageGenerationCount (tier_user tier a b c) = Some b"
  "ttsUsageCount (tier_user tier a b c) = Some c"
  by (simp_all add: tier_user_def admin_bypass_def)

lemma example_counters:
  "parseInt ''0'' = Num 0" "parseInt ''1'' = Num 1" "parseInt ''14'' = Num 14"
  "parseInt ''25'' = Num 25" "parseInt ''29'' = Num 29" "parseInt ''30'' = Num 30"
  "parseInt ''59'' = Num 59" "parseInt ''300'' = Num 300" "parseInt ''999'' = Num 999"
  "parseInt ''5000'' = Num 5000"
  by code_simp+






text \<open>A tier that is an inherited name gives a limit that is not a number, and the user is
  denied at counter 0.\<close>

lemma inherited_tier_denied:
  "checkUsageLimit tier_store ''c''
     = \<lparr>canUse = False, currentUsage = Num 0, limit = InheritedLimit ''constructor''\<rparr>"
  "checkImageUsageLimit tier_store ''c''
     = \<lparr>canUse = False, currentUsage = Num 0, limit = InheritedLimit ''constructor''\<rparr>"
proof -
  have i: "''constructor'' \<in> set object_prototype_names"
    by (simp add: object_prototype_names_def)
  show "checkUsageLimit tier_store ''c''
     = \<lparr>canUse = False, currentUsage = Num 0, limit = InheritedLimit ''constructor''\<rparr>"
    by (subst check_found [OF tier_store_lookup(9) tier_user_fields(1)])
       (simp add: tier_user_fields example_counters inherited_tier_limits [OF i])
  show "checkImageUsageLimit tier_store ''c''
     = \<lparr>canUse = False, currentUsage = Num 0, limit = InheritedLimit ''constructor''\<rparr>"
    by (subst image_check_found [OF tier_store_lookup(9) tier_user_fields(1)])
       (simp add: tier_user_fields example_counters inherited_tier_limits [OF i])
qed

text \<open>A stored counter without a leading numeral reads as \<open>NaN\<close>; every comparison with
  \<open>NaN\<close> is false, so such a user is denied.\<close>

lemma unparsable_counter_denied:
  assumes "getUser st uid = Inr (Some u)" "\<not> admin_bypass u"
  shows "parseInt (or_default (conversationCount u) ''0'') = NaN
           \<Longrightarrow> \<not> canUse (checkUsageLimit st uid)"
    and "parseInt (or_default (imageGenerationCount u) ''0'') = NaN
           \<Longrightarrow> \<not> canUse (checkImageUsageLimit st uid)"
proof -
  have "\<not> js_below NaN l" for l
    by (cases l) simp_all
  then show "parseInt (or_default (conversationCount u) ''0'') = NaN
           \<Longrightarrow> \<not> canUse (checkUsageLimit st uid)"
    and "parseInt (or_default (imageGenerationCount u) ''0'') = NaN
           \<Longrightarrow> \<not> canUse (checkImageUsageLimit st uid)"
    using assms by (simp_all add: check_found image_check_found)
qed

section \<open>Properties of the usage endpoints\<close>

lemma le_div_int_iff:
  fixes n d k :: int
  assumes "0 < k"
  shows "(n \<le> d div k) = (n * k \<le> d)"
proof
  assume "n \<le> d div k"
  then have "n * k \<le> (d div k) * k"
    using assms by (simp add: mult_right_mono)
  also have "\<dots> \<le> d"
    using assms by (metis mult.commute div_mult_mod_eq le_add_same_cancel1 pos_mod_sign)
  finally show "n * k \<le> d" .
next
  assume "n * k \<le> d"
  then have "(n * k) div k \<le> d div k"
    using assms by (rule zdiv_mono1)
  then show "n \<le> d div k"
    using assms by simp
qed

lemma day_ms_pos: "0 < day_ms"
  by (simp add: day_ms_def)

lemma days_ge: "(30 \<le> d div day_ms) = (30 * day_ms \<le> d)"
  by (rule le_div_int_iff [OF day_ms_pos])

lemma getUser_found:
  assumes "getUser st uid = Inr (Some u)"
  shows "available st" and "users st uid = Some u"
  using assms by (auto simp: getUser_def split: if_splits)

text \<open>After \<open>incrementUsage\<close> the counter of the type reads one more than before (\<open>NaN\<close> stays
  \<open>NaN\<close>); the other two counters are not written.\<close>

lemma incrementUsage_reads_one_more:
  assumes "getUser st uid = Inr (Some u)"
  shows "\<exists>st' u'. incrementUsage st uid conversation now = Inr st' \<and> users st' uid = Some u'
           \<and> parseInt (or_default (conversationCount u') ''0'')
               = js_succ (parseInt (or_default (conversationCount u) ''0''))
           \<and> imageGenerationCount u' = imageGenerationCount u
           \<and> ttsUsageCount u' = ttsUsageCount u \<and> dailyUsageCount u' = dailyUsageCount u"
    and "\<exists>st' u'. incrementUsage st uid imageGeneration now = Inr st' \<and> users st' uid = Some u'
           \<and> parseInt (or_default (imageGenerationCount u') ''0'')
               = js_succ (parseInt (or_default (imageGenerationCount u) ''0''))
           \<and> conversationCount u' = conversationCount u
           \<and> ttsUsageCount u' = ttsUsageCount u \<and> dailyUsageCount u' = dailyUsageCount u"
    and "\<exists>st' u'. incrementUsage st uid tts now = Inr st' \<and> users st' uid = Some u'
           \<and> parseInt (or_default (ttsUsageCount u') ''0'')
               = js_succ (parseInt (or_default (ttsUsageCount u) ''0''))
           \<and> conversationCount u' = conversationCount u
           \<and> imageGenerationCount u' = imageGenerationCount u
           \<and> dailyUsageCount u' = dailyUsageCount u"
  using assms
  by (simp_all add: incrementUsage_def Let_def js_String_nonempty parseInt_js_String_any)

text \<open>\<open>resetUserUsage\<close>, the reset of the admin endpoint, zeroes every counter and stamps the
  time, whenever it is called; a second call leaves the counters at zero and stamps again.\<close>

lemma resetUserUsage_found:
  assumes "getUser st uid = Inr (Some u)"
  shows "resetUserUsage st uid now =
           Inr (Some (u\<lparr>conversationCount := Some ''0'', imageGenerationCount := Some ''0'',
                        ttsUsageCount := Some ''0'', dailyUsageCount := Some ''0'',
                        monthlyImageCount := Some ''0'', lastUsageReset := Some now,
                        updatedAt := Some now\<rparr>),
                st\<lparr>users := (users st)(uid \<mapsto>
                      u\<lparr>conversationCount := Some ''0'', imageGenerationCount := Some ''0'',
                        ttsUsageCount := Some ''0'', dailyUsageCount := Some ''0'',
                        monthlyImageCount := Some ''0'', lastUsageReset := Some now,
                        updatedAt := Some now\<rparr>)\<rparr>)"
  using getUser_found [OF assms] by (simp add: resetUserUsage_def Let_def)

lemma resetUserUsage_twice:
  assumes "getUser st uid = Inr (Some u)"
    and "resetUserUsage st uid t1 = Inr (r1, st1)"
    and "resetUserUsage st1 uid t2 = Inr (r2, st2)"
  shows "\<exists>u1 u2. users st1 uid = Some u1 \<and> users st2 uid = Some u2
           \<and> u2 = u1\<lparr>lastUsageReset := Some t2, updatedAt := Some t2\<rparr>"
proof -
  from assms(2) have st1: "st1 = st\<lparr>users := (users st)(uid \<mapsto>
        u\<lparr>conversationCount := Some ''0'', imageGenerationCount := Some ''0'',
          ttsUsageCount := Some ''0'', dailyUsageCount := Some ''0'',
          monthlyImageCount := Some ''0'', lastUsageReset := Some t1, updatedAt := Some t1\<rparr>)\<rparr>"
    by (auto simp: resetUserUsage_found [OF assms(1)])
  have "available st"
    using getUser_found(1) [OF assms(1)] .
  then have g1: "getUser st1 uid = Inr (Some
        (u\<lparr>conversationCount := Some ''0'', imageGenerationCount := Some ''0'',
          ttsUsageCount := Some ''0'', dailyUsageCount := Some ''0'',
          monthlyImageCount := Some ''0'', lastUsageReset := Some t1, updatedAt := Some t1\<rparr>))"
    by (simp add: st1 getUser_def)
  from assms(3) show ?thesis
    by (simp add: resetUserUsage_found [OF g1]) (auto simp: st1)
qed

lemma increment_usage_route_found:
  assumes "getUser st uid = Inr (Some u)"
  shows "increment_usage_route st now (Some uid) =
           (\<lparr>status = 200,
             body = [(''success'', RBool True),
                     (''newUsage'', RNum (js_succ (parseInt (or_default (dailyUsageCount u) ''0''))))]\<rparr>,
            st\<lparr>users := (users st)(uid \<mapsto>
                 u\<lparr>dailyUsageCount :=
                     Some (js_String (js_succ (parseInt (or_default (dailyUsageCount u) ''0'')))),
                   updatedAt := Some now\<rparr>)\<rparr>)"
  using assms getUser_found [OF assms]
  by (simp add: increment_usage_route_def updateUserSubscription_def Let_def)

lemma incrementUsage_found:
  assumes "getUser st uid = Inr (Some u)"
  shows "incrementUsage st uid conversation now =
           Inr (st\<lparr>users := (users st)(uid \<mapsto>
                  u\<lparr>conversationCount :=
                      Some (js_String (js_succ (parseInt (or_default (conversationCount u) ''0'')))),
                    updatedAt := Some now\<rparr>)\<rparr>)"
    and "incrementUsage st uid imageGeneration now =
           Inr (st\<lparr>users := (users st)(uid \<mapsto>
                  u\<lparr>imageGenerationCount :=
                      Some (js_String (js_succ (parseInt (or_default (imageGenerationCount u) ''0'')))),
                    updatedAt := Some now\<rparr>)\<rparr>)"
    and "incrementUsage st uid tts now =
           Inr (st\<lparr>users := (users st)(uid \<mapsto>
                  u\<lparr>ttsUsageCount :=
                      Some (js_String (js_succ (parseInt (or_default (ttsUsageCount u) ''0'')))),
                    updatedAt := Some now\<rparr>)\<rparr>)"
  using assms by (simp_all add: incrementUsage_def Let_def)

lemma check_usage_route_within_window:
  assumes "getUser st uid = Inr (Some u)"
    and "\<not> (30 * day_ms \<le> now - (case lastUsageReset u of None \<Rightarrow> now | Some t \<Rightarrow> t))"
  shows "map_of (body (fst (check_usage_route st now (Some uid)))) ''canUse'' =
           Some (RBool (js_less (parseInt (or_default (dailyUsageCount u) ''0''))
                   (userLimit_conversations
                      (case subscriptionTier u of
                         None \<Rightarrow> Own limits_free
                       | Some t \<Rightarrow> (case get_property limits t of
                                      Missing \<Rightarrow> Own limits_free | found \<Rightarrow> found)))))"
    and "map_of (body (fst (check_usage_route st now (Some uid)))) ''limit'' =
           Some (case (case subscriptionTier u of
                         None \<Rightarrow> Own limits_free
                       | Some t \<Rightarrow> (case get_property limits t of
                                      Missing \<Rightarrow> Own limits_free | found \<Rightarrow> found)) of
                   Own l \<Rightarrow> RNum (Num (conversations l))
                 | _ \<Rightarrow> RUndefined)"
  using assms by (simp_all add: check_usage_route_def Let_def days_ge)

lemma check_usage_within_window:
  assumes "getUser st uid = Inr (Some u)"
    and "\<not> (30 * day_ms \<le> now - (case lastUsageReset u of None \<Rightarrow> now | Some t \<Rightarrow> t))"
  shows "snd (check_usage_route st now (Some uid)) = st"
  using assms by (simp add: check_usage_route_def Let_def days_ge)

lemma check_usage_after_window:
  assumes "getUser st uid = Inr (Some u)" "lastUsageReset u = Some t" "30 * day_ms \<le> now - t"
  shows "snd (check_usage_route st now (Some uid)) =
           st\<lparr>users := (users st)(uid \<mapsto>
                  u\<lparr>dailyUsageCount := Some ''0'', lastUsageReset := Some now, updatedAt := Some now\<rparr>)\<rparr>"
    and "map_of (body (fst (check_usage_route st now (Some uid)))) ''currentUsage'' = Some (RNum (Num 0))"
  using assms
  by (auto simp: check_usage_route_def Let_def days_ge getUser_def updateUserSubscription_def
           split: if_splits)

text \<open>
  Claim C9.  The reset logic of \<open>POST /api/check-usage\<close> is idempotent within a window: once a
  call at time \<open>t1\<close> has reset the user (the last reset was 30 days or more before \<open>t1\<close>), a
  second call at any \<open>t2\<close> with \<open>t1 \<le> t2 < t1 + 30 days\<close> changes nothing in the storage:
  counters and \<open>lastUsageReset\<close> stay as the first call left them.
\<close>

theorem reset_idempotent_within_window:
  "getUser st uid = Inr (Some u) \<and> lastUsageReset u = Some t0 \<and> 30 * day_ms \<le> t1 - t0
     \<and> t1 \<le> t2 \<and> t2 < t1 + 30 * day_ms \<longrightarrow>
   users (snd (check_usage_route st t1 (Some uid))) uid =
     Some (u\<lparr>dailyUsageCount := Some ''0'', lastUsageReset := Some t1, updatedAt := Some t1\<rparr>)
   \<and> snd (check_usage_route (snd (check_usage_route st t1 (Some uid))) t2 (Some uid)) =
       snd (check_usage_route st t1 (Some uid))"
proof (intro impI)
  assume a: "getUser st uid = Inr (Some u) \<and> lastUsageReset u = Some t0 \<and> 30 * day_ms \<le> t1 - t0
     \<and> t1 \<le> t2 \<and> t2 < t1 + 30 * day_ms"
  let ?u1 = "u\<lparr>dailyUsageCount := Some ''0'', lastUsageReset := Some t1, updatedAt := Some t1\<rparr>"
  let ?st1 = "st\<lparr>users := (users st)(uid \<mapsto> ?u1)\<rparr>"
  from a have st1: "snd (check_usage_route st t1 (Some uid)) = ?st1"
    by (simp add: check_usage_after_window)
  from a have av: "available st"
    by (auto simp: getUser_def split: if_splits)
  then have g1: "getUser ?st1 uid = Inr (Some ?u1)"
    by (simp add: getUser_def)
  from a have "\<not> (30 * day_ms \<le> t2 - (case lastUsageReset ?u1 of None \<Rightarrow> t2 | Some t \<Rightarrow> t))"
    by simp
  with g1 have "snd (check_usage_route ?st1 t2 (Some uid)) = ?st1"
    by (rule check_usage_within_window)
  with st1 show "users (snd (check_usage_route st t1 (Some uid))) uid = Some ?u1
   \<and> snd (check_usage_route (snd (check_usage_route st t1 (Some uid))) t2 (Some uid)) =
       snd (check_usage_route st t1 (Some uid))"
    by simp
qed

theorem reset_idempotent_within_window_witness:
  "getUser stale_store ''u1'' = Inr (Some stale_user) \<and> lastUsageReset stale_user = Some 0
   \<and> 30 * day_ms \<le> 31 * day_ms - 0 \<and> 31 * day_ms \<le> 40 * day_ms
   \<and> 40 * day_ms < 31 * day_ms + 30 * day_ms
   \<and> users (snd (check_usage_route stale_store (31 * day_ms) (Some ''u1''))) ''u1'' =
        Some (stale_user\<lparr>dailyUsageCount := Some ''0'', lastUsageReset := Some (31 * day_ms),
                          updatedAt := Some (31 * day_ms)\<rparr>)
   \<and> snd (check_usage_route (snd (check_usage_route stale_store (31 * day_ms) (Some ''u1'')))
            (40 * day_ms) (Some ''u1''))
       = snd (check_usage_route stale_store (31 * day_ms) (Some ''u1''))"
proof -
  have h: "getUser stale_store ''u1'' = Inr (Some stale_user) \<and> lastUsageReset stale_user = Some 0
     \<and> 30 * day_ms \<le> 31 * day_ms - 0 \<and> 31 * day_ms \<le> 40 * day_ms
     \<and> 40 * day_ms < 31 * day_ms + 30 * day_ms"
    by (simp add: getUser_def stale_store_def stale_user_def day_ms_def)
  from reset_idempotent_within_window
         [where st = stale_store and uid = "''u1''" and u = stale_user and ?t0.0 = 0
            and ?t1.0 = "31 * day_ms" and ?t2.0 = "40 * day_ms"] h
  show ?thesis by blast
qed

lemma stale_lookup:
  "getUser stale_store ''u1'' = Inr (Some stale_user)"
  "getUser stale_store ''u2'' = Inr (Some pro_user)"
  by (simp_all add: getUser_def stale_store_def)

text \<open>
  Claim C4 (not met by the code).  \<open>POST /api/check-usage\<close> and \<open>checkUsageLimit\<close> decide
  differently on one and the same user: for a pro-tier user whose \<open>dailyUsageCount\<close> and
  \<open>conversationCount\<close> both read 700, the endpoint reports \<open>canUse = false\<close> against the limit
  600 while the enforced check allows against the limit 1000.
  \<open>POST /api/increment-usage\<close> increments \<open>dailyUsageCount\<close>, whereas
  \<open>incrementUsage(_, 'conversation')\<close> increments \<open>conversationCount\<close>.
\<close>

theorem check_usage_disagrees_with_enforced_check:
  "conversationCount pro_user = dailyUsageCount pro_user
   \<and> map_of (body (fst (check_usage_route stale_store day_ms (Some ''u2'')))) ''canUse'' = Some (RBool False)
   \<and> map_of (body (fst (check_usage_route stale_store day_ms (Some ''u2'')))) ''limit'' = Some (RNum (Num 600))
   \<and> checkUsageLimit stale_store ''u2'' = \<lparr>canUse = True, currentUsage = Num 700, limit = Limit 1000\<rparr>
   \<and> users (snd (increment_usage_route stale_store day_ms (Some ''u2''))) ''u2'' =
        Some (pro_user\<lparr>dailyUsageCount := Some ''701'', updatedAt := Some day_ms\<rparr>)
   \<and> map_sum id (\<lambda>s. users s ''u2'') (incrementUsage stale_store ''u2'' conversation day_ms) =
        Inr (Some (pro_user\<lparr>conversationCount := Some ''701'', updatedAt := Some day_ms\<rparr>))"
proof -
  have p: "parseInt ''700'' = Num 700" "js_String (Num 701) = ''701''"
    by code_simp+
  have na: "\<not> admin_bypass pro_user"
    by (simp add: admin_bypass_def pro_user_def)
  have w: "\<not> (30 * day_ms \<le> day_ms - (case lastUsageReset pro_user of None \<Rightarrow> day_ms | Some t \<Rightarrow> t))"
    by (simp add: pro_user_def day_ms_def)
  have c0: "conversationCount pro_user = dailyUsageCount pro_user"
    by (simp add: pro_user_def)
  have c1: "map_of (body (fst (check_usage_route stale_store day_ms (Some ''u2'')))) ''canUse'' = Some (RBool False)"
    by (subst check_usage_route_within_window(1) [OF stale_lookup(2) w])
       (simp add: pro_user_def p limits_def get_property_def)
  have c2: "map_of (body (fst (check_usage_route stale_store day_ms (Some ''u2'')))) ''limit'' = Some (RNum (Num 600))"
    by (subst check_usage_route_within_window(2) [OF stale_lookup(2) w])
       (simp add: pro_user_def limits_def get_property_def)
  have c3: "checkUsageLimit stale_store ''u2'' = \<lparr>canUse = True, currentUsage = Num 700, limit = Limit 1000\<rparr>"
    by (subst check_found [OF stale_lookup(2) na]) (simp add: pro_user_def p tier_limits)
  have c4: "users (snd (increment_usage_route stale_store day_ms (Some ''u2''))) ''u2'' =
        Some (pro_user\<lparr>dailyUsageCount := Some ''701'', updatedAt := Some day_ms\<rparr>)"
    by (subst increment_usage_route_found [OF stale_lookup(2)]) (simp add: pro_user_def p)
  have c5: "map_sum id (\<lambda>s. users s ''u2'') (incrementUsage stale_store ''u2'' conversation day_ms) =
        Inr (Some (pro_user\<lparr>conversationCount := Some ''701'', updatedAt := Some day_ms\<rparr>))"
    by (subst incrementUsage_found(1) [OF stale_lookup(2)]) (simp add: pro_user_def p)
  show ?thesis using c0 c1 c2 c3 c4 c5 by blast
qed

section \<open>Properties of the metered endpoints\<close>



lemma denied_routes:
  "\<not> canUse (checkImageUsageLimit st uid) \<Longrightarrow>
     generate_image_route st now (Some uid) ib p1 = (image_limit_reached (checkImageUsageLimit st uid), st, [])"
  "\<not> canUse (checkUsageLimit st uid) \<Longrightarrow>
     generate_dialogue_route parse st now (Some uid) dbody p2 = (limit_reached (checkUsageLimit st uid), st, [])"
  "\<not> canUse (checkUsageLimit st uid) \<Longrightarrow>
     tts_route st now (Some uid) spoken ch p3 = (limit_reached (checkUsageLimit st uid), st, [])"
  "\<not> canUse (checkUsageLimit st uid) \<Longrightarrow>
     conversation_response_route st now (Some uid) cb p4 rnd = (limit_reached (checkUsageLimit st uid), st, [])"
  by (simp_all add: generate_image_route_def generate_dialogue_route_def tts_route_def
        conversation_response_route_def Let_def)



text \<open>An allowed request is charged after the provider has answered: the conversation endpoint
  increments \<open>conversationCount\<close>, the speech endpoint increments \<open>ttsUsageCount\<close>.\<close>

lemma allowed_conversation_charged:
  assumes "getUser st uid = Inr (Some u)" "canUse (checkUsageLimit st uid)"
  shows "conversation_response_route st now (Some uid) b (Ok content) rnd =
           (\<lparr>status = 200,
             body = [(''response'', RText content),
                     (''feedback'', RObj [(''accuracy'', RNum (Num (int rnd + 80)))]),
                     (''message'', RMsg DialogueGenerated)]\<rparr>,
            st\<lparr>users := (users st)(uid \<mapsto>
                 u\<lparr>conversationCount :=
                     Some (js_String (js_succ (parseInt (or_default (conversationCount u) ''0'')))),
                   updatedAt := Some now\<rparr>)\<rparr>,
            [ChatCompletion (conversation_messages b)])"
  using assms(2)
  by (simp add: conversation_response_route_def Let_def incrementUsage_found(1) [OF assms(1)])

lemma allowed_tts_charged:
  assumes "getUser st uid = Inr (Some u)" "canUse (checkUsageLimit st uid)"
  shows "fst (snd (tts_route st now (Some uid) spoken ch (Ok audio))) =
            st\<lparr>users := (users st)(uid \<mapsto>
                 u\<lparr>ttsUsageCount :=
                     Some (js_String (js_succ (parseInt (or_default (ttsUsageCount u) ''0'')))),
                   updatedAt := Some now\<rparr>)\<rparr>"
  using assms(2)
  by (simp add: tts_route_def Let_def incrementUsage_found(3) [OF assms(1)])

text \<open>The quota checks do not depend on the time of the last reset.\<close>

lemma quota_checks_ignore_last_reset:
  "checkUsageLimit (st\<lparr>users := (users st)(uid \<mapsto> u\<lparr>lastUsageReset := t\<rparr>)\<rparr>) uid
     = checkUsageLimit (st\<lparr>users := (users st)(uid \<mapsto> u)\<rparr>) uid"
  "checkImageUsageLimit (st\<lparr>users := (users st)(uid \<mapsto> u\<lparr>lastUsageReset := t\<rparr>)\<rparr>) uid
     = checkImageUsageLimit (st\<lparr>users := (users st)(uid \<mapsto> u)\<rparr>) uid"
  by (simp_all add: checkUsageLimit_def checkImageUsageLimit_def getUser_def admin_bypass_def Let_def)

text \<open>
  Claim C2 (not met by the code).  For a user whose last reset was 31 days ago, the only
  automatic reset, in \<open>POST /api/check-usage\<close>, zeroes \<open>dailyUsageCount\<close> and stamps
  \<open>lastUsageReset\<close>, and leaves \<open>conversationCount\<close>, \<open>imageGenerationCount\<close> and
  \<open>ttsUsageCount\<close> as they were; the quota checks of the metered endpoints reset nothing, so
  the user stays denied before and after that call.
\<close>

theorem automatic_reset_skips_metered_counters:
  "users (snd (check_usage_route stale_store (31 * day_ms) (Some ''u1''))) ''u1'' =
     Some (stale_user\<lparr>dailyUsageCount := Some ''0'', lastUsageReset := Some (31 * day_ms),
                       updatedAt := Some (31 * day_ms)\<rparr>)
   \<and> conversationCount (stale_user\<lparr>dailyUsageCount := Some ''0'',
          lastUsageReset := Some (31 * day_ms), updatedAt := Some (31 * day_ms)\<rparr>) = Some ''30''
   \<and> checkUsageLimit (snd (check_usage_route stale_store (31 * day_ms) (Some ''u1''))) ''u1'' =
       \<lparr>canUse = False, currentUsage = Num 30, limit = Limit 30\<rparr>
   \<and> checkImageUsageLimit (snd (check_usage_route stale_store (31 * day_ms) (Some ''u1''))) ''u1'' =
       \<lparr>canUse = False, currentUsage = Num 1, limit = Limit 1\<rparr>
   \<and> generate_dialogue_route example_parse stale_store (31 * day_ms) (Some ''u1'')
         example_dialogue_body (CompletionContent (Some (ascii ''A'')))
       = (limit_reached \<lparr>canUse = False, currentUsage = Num 30, limit = Limit 30\<rparr>, stale_store, [])"
proof -
  let ?u = "stale_user\<lparr>dailyUsageCount := Some ''0'', lastUsageReset := Some (31 * day_ms),
                       updatedAt := Some (31 * day_ms)\<rparr>"
  let ?st = "stale_store\<lparr>users := (users stale_store)(''u1'' \<mapsto> ?u)\<rparr>"
  have "30 * day_ms \<le> 31 * day_ms - 0"
    by (simp add: day_ms_def)
  with stale_lookup(1) have st: "snd (check_usage_route stale_store (31 * day_ms) (Some ''u1'')) = ?st"
    by (intro check_usage_after_window) (simp_all add: stale_user_def)
  have na: "\<not> admin_bypass ?u" "\<not> admin_bypass stale_user"
    by (simp_all add: admin_bypass_def stale_user_def)
  have g: "getUser ?st ''u1'' = Inr (Some ?u)"
    by (simp add: getUser_def stale_store_def)
  have p: "parseInt ''30'' = Num 30" "parseInt ''1'' = Num 1"
    by code_simp+
  have c1: "users ?st ''u1'' = Some ?u"
    by simp
  have c2: "conversationCount ?u = Some ''30''"
    by (simp add: stale_user_def)
  have c3: "checkUsageLimit ?st ''u1'' = \<lparr>canUse = False, currentUsage = Num 30, limit = Limit 30\<rparr>"
    by (subst check_found [OF g na(1)]) (simp add: stale_user_def p tier_limits)
  have c4: "checkImageUsageLimit ?st ''u1'' = \<lparr>canUse = False, currentUsage = Num 1, limit = Limit 1\<rparr>"
    by (subst image_check_found [OF g na(1)]) (simp add: stale_user_def p tier_limits)
  have c0: "checkUsageLimit stale_store ''u1'' = \<lparr>canUse = False, currentUsage = Num 30, limit = Limit 30\<rparr>"
    by (subst check_found [OF stale_lookup(1) na(2)]) (simp add: stale_user_def p tier_limits)
  have c5: "generate_dialogue_route example_parse stale_store (31 * day_ms) (Some ''u1'')
         example_dialogue_body (CompletionContent (Some (ascii ''A'')))
       = (limit_reached \<lparr>canUse = False, currentUsage = Num 30, limit = Limit 30\<rparr>, stale_store, [])"
    using denied_routes(2) [of stale_store "''u1''"] c0 by simp
  show ?thesis
    unfolding st using c1 c2 c3 c4 c5 by blast
qed

lemma conversation_messages_length:
  "length (conversation_messages b) = length (conversationHistory b) + 2"
  by (simp add: conversation_messages_def)

lemma conversation_messages_all_turns:
  assumes "turn \<in> set (conversationHistory b)"
  shows "(if speaker turn = ''user'' then RoleUser else RoleAssistant, Said (turn_text turn))
           \<in> set (conversation_messages b)"
  using assms by (auto simp: conversation_messages_def)

lemma slice_last_bounded: "length (slice_last n xs) \<le> n"
  by (simp add: slice_last_def)

lemma historyText_window: "historyText history = historyText (slice_last 6 history)"
  by (simp add: historyText_def slice_last_def)

lemma allowed_conversation_call:
  assumes "canUse (checkUsageLimit st uid)"
  shows "snd (snd (conversation_response_route st now (Some uid) b p rnd))
           = [ChatCompletion (conversation_messages b)]"
  using assms
  by (simp add: conversation_response_route_def Let_def split: answer.splits sum.splits)

text \<open>The screen posts every turn of its \<open>dialogueHistory\<close> with the user's input.\<close>

lemma client_posts_whole_history:
  "snd (generateContextualResponse s said reply) =
     [ConversationResponseRequest said
        (map (\<lambda>turn. \<lparr>speaker = dt_speaker turn, turn_text = dt_text turn\<rparr>) (dialogueHistory s))]"
  by (cases reply) (simp_all add: generateContextualResponse_def Let_def)

text \<open>
  Claim C6 (not met by the code).  \<open>POST /api/conversation-response\<close> sends the provider one
  message for every turn of the history it receives: with a history of eight turns the chat
  request has ten messages and the first turn is among them.  Only
  \<open>generateConversationResponse\<close>, which the route does not call, keeps the last six turns.
\<close>

theorem conversation_route_sends_whole_history:
  "length long_history = 8
   \<and> snd (snd (conversation_response_route example_store 5 (Some ''u1'') long_conversation_body
                 (Ok [0x306F, 0x3044]) 7))
       = [ChatCompletion (conversation_messages long_conversation_body)]
   \<and> length (conversation_messages long_conversation_body) = 10
   \<and> (RoleUser, Said (turn_text (numbered_turn 1))) \<in> set (conversation_messages long_conversation_body)
   \<and> historyText long_history = historyText (map numbered_turn [3, 4, 5, 6, 7, 8])"
proof -
  have l: "length long_history = 8"
    by (simp add: long_history_def)
  have a: "canUse (checkUsageLimit example_store ''u1'')"
    by code_simp
  have c1: "snd (snd (conversation_response_route example_store 5 (Some ''u1'') long_conversation_body
                 (Ok [0x306F, 0x3044]) 7))
       = [ChatCompletion (conversation_messages long_conversation_body)]"
    using a by (rule allowed_conversation_call)
  have h: "conversationHistory long_conversation_body = long_history"
    by (simp add: long_conversation_body_def)
  have c2: "length (conversation_messages long_conversation_body) = 10"
    by (simp add: conversation_messages_length h l)
  have "numbered_turn 1 \<in> set (conversationHistory long_conversation_body)"
    by (simp add: h long_history_def)
  from conversation_messages_all_turns [OF this]
  have c3: "(RoleUser, Said (turn_text (numbered_turn 1))) \<in> set (conversation_messages long_conversation_body)"
    by (simp add: numbered_turn_def)
  have "slice_last 6 long_history = map numbered_turn [3, 4, 5, 6, 7, 8]"
    by (simp add: slice_last_def long_history_def)
  then have c4: "historyText long_history = historyText (map numbered_turn [3, 4, 5, 6, 7, 8])"
    using historyText_window [of long_history] historyText_window [of "map numbered_turn [3, 4, 5, 6, 7, 8]"]
    by (simp add: slice_last_def)
  show ?thesis using l c1 c2 c3 c4 by blast
qed

section \<open>Properties of dialogue generation\<close>

lemma validate_dialogue_ok:
  assumes "validate_dialogue result = Inr r"
  shows "get_member result ''lines'' = Inr (Some (JArr (lines r)))"
    and "get_member result ''focus_phrases'' = Inr (Some (JArr (focus_phrases r)))"
    and "length (lines r) = 3" and "length (focus_phrases r) = 3"
proof -
  from assms obtain ls where ls: "get_member result ''lines'' = Inr ls"
    and l1: "isArray ls" and l2: "length (elements ls) = 3"
    by (auto simp: validate_dialogue_def split: sum.splits if_splits)
  from assms ls obtain fs where fs: "get_member result ''focus_phrases'' = Inr fs"
    and f1: "isArray fs" and f2: "length (elements fs) = 3"
    and r: "r = \<lparr>lines = elements ls, focus_phrases = elements fs\<rparr>"
    by (auto simp: validate_dialogue_def split: sum.splits if_splits)
  from l1 obtain xs where xs: "ls = Some (JArr xs)"
    by (cases ls rule: isArray.cases) auto
  from f1 obtain ys where ys: "fs = Some (JArr ys)"
    by (cases fs rule: isArray.cases) auto
  show "get_member result ''lines'' = Inr (Some (JArr (lines r)))"
    using ls xs r by simp
  show "get_member result ''focus_phrases'' = Inr (Some (JArr (focus_phrases r)))"
    using fs ys r by simp
  show "length (lines r) = 3" using l2 r by simp
  show "length (focus_phrases r) = 3" using f2 r by simp
qed

lemma validate_dialogue_rejects:
  assumes "\<not> (\<exists>xs. get_member result ''lines'' = Inr (Some (JArr xs)) \<and> length xs = 3)
           \<or> \<not> (\<exists>ys. get_member result ''focus_phrases'' = Inr (Some (JArr ys)) \<and> length ys = 3)"
  shows "\<exists>e. validate_dialogue result = Inl e"
proof (cases "validate_dialogue result")
  case (Inl e)
  then show ?thesis by blast
next
  case (Inr r)
  from validate_dialogue_ok [OF Inr] assms show ?thesis by blast
qed

lemma generateDialogue_success:
  assumes "generateDialogue parse c request = (Inr r, calls)"
  shows "\<exists>content result. c = CompletionContent (Some content) \<and> parse content = Some result
           \<and> validate_dialogue result = Inr r"
  using assms
  by (auto simp: generateDialogue_def dialogue_from_completion_def Let_def
           split: option.splits if_splits sum.splits completion.splits)

text \<open>
  Claim C8.  A result returned by dialogue generation has exactly three lines and exactly three
  focus phrases; when the parsed provider response has a \<open>lines\<close> or \<open>focus_phrases\<close> member that
  is missing, not an array, or not of length three, the operation fails.
\<close>

theorem generateDialogue_three_lines:
  "(\<forall>r calls. generateDialogue parse c request = (Inr r, calls) \<longrightarrow>
       length (lines r) = 3 \<and> length (focus_phrases r) = 3)
   \<and> (\<forall>content result.
         c = CompletionContent (Some content) \<and> parse content = Some result
         \<and> (\<not> (\<exists>xs. get_member result ''lines'' = Inr (Some (JArr xs)) \<and> length xs = 3)
            \<or> \<not> (\<exists>ys. get_member result ''focus_phrases'' = Inr (Some (JArr ys)) \<and> length ys = 3))
         \<longrightarrow> (\<exists>e. fst (generateDialogue parse c request) = Inl e))"
proof (intro conjI allI impI)
  fix r calls
  assume "generateDialogue parse c request = (Inr r, calls)"
  then obtain result where "validate_dialogue result = Inr r"
    using generateDialogue_success by blast
  then show "length (lines r) = 3" "length (focus_phrases r) = 3"
    by (simp_all add: validate_dialogue_ok)
next
  fix content result
  assume a: "c = CompletionContent (Some content) \<and> parse content = Some result
         \<and> (\<not> (\<exists>xs. get_member result ''lines'' = Inr (Some (JArr xs)) \<and> length xs = 3)
            \<or> \<not> (\<exists>ys. get_member result ''focus_phrases'' = Inr (Some (JArr ys)) \<and> length ys = 3))"
  show "\<exists>e. fst (generateDialogue parse c request) = Inl e"
  proof (cases "fst (generateDialogue parse c request)")
    case (Inl e)
    then show ?thesis by blast
  next
    case (Inr r)
    then have "generateDialogue parse c request = (Inr r, snd (generateDialogue parse c request))"
      by (metis prod.collapse)
    then obtain content' result' where "c = CompletionContent (Some content')"
      "parse content' = Some result'" "validate_dialogue result' = Inr r"
      using generateDialogue_success by blast
    with a have "validate_dialogue result = Inr r" by simp
    with a validate_dialogue_rejects [of result] show ?thesis by auto
  qed
qed

theorem generateDialogue_three_lines_witness:
  "(\<exists>r. generateDialogue example_parse (CompletionContent (Some (ascii ''A''))) example_dialogue_request
          = (Inr r, [DialogueCompletion False])
        \<and> length (lines r) = 3 \<and> length (focus_phrases r) = 3)
   \<and> example_parse (ascii ''B'') =
        Some (JObj [(''lines'', JArr [JStr [0x306F, 0x3044], JStr [0x307E, 0x305F]]),
                    (''focus_phrases'', three_phrases)])
   \<and> (\<exists>e. fst (generateDialogue example_parse (CompletionContent (Some (ascii ''B'')))
                  example_dialogue_request) = Inl e)"
proof -
  let ?two = "JObj [(''lines'', JArr [JStr [0x306F, 0x3044], JStr [0x307E, 0x305F]]),
                    (''focus_phrases'', three_phrases)]"
  have a: "generateDialogue example_parse (CompletionContent (Some (ascii ''A''))) example_dialogue_request
       = (Inr \<lparr>lines = elements (Some three_phrases), focus_phrases = elements (Some three_phrases)\<rparr>,
          [DialogueCompletion False])"
    by code_simp
  have b: "example_parse (ascii ''B'') = Some ?two"
    by code_simp
  have nb: "\<not> (\<exists>xs. get_member ?two ''lines'' = Inr (Some (JArr xs)) \<and> length xs = 3)"
    by (simp add: get_member_def)
  note inst = generateDialogue_three_lines [of example_parse _ example_dialogue_request]
  from inst [of "CompletionContent (Some (ascii ''A''))"] a
  have c1: "length (lines \<lparr>lines = elements (Some three_phrases), focus_phrases = elements (Some three_phrases)\<rparr>) = 3
     \<and> length (focus_phrases \<lparr>lines = elements (Some three_phrases), focus_phrases = elements (Some three_phrases)\<rparr>) = 3"
    by blast
  from inst [of "CompletionContent (Some (ascii ''B''))"] b nb
  have c2: "\<exists>e. fst (generateDialogue example_parse (CompletionContent (Some (ascii ''B'')))
                  example_dialogue_request) = Inl e"
    by blast
  show ?thesis using a b c1 c2 by blast
qed

text \<open>The route passes the three lines and the three focus phrases on.\<close>

lemma dialogue_route_three_lines:
  assumes "generate_dialogue_route parse st now auth b provider = (r, st', calls)"
    and "status r = 200"
  shows "\<exists>ls fs. map_of (body r) ''lines'' = Some (RItems ls) \<and> length ls = 3
           \<and> map_of (body r) ''focus_phrases'' = Some (RItems fs) \<and> length fs = 3"
proof -
  from assms obtain d request where
    g: "generateDialogue parse provider request = (Inr d, calls)"
    and l: "map_of (body r) ''lines'' = Some (RItems (lines d))"
    and f: "map_of (body r) ''focus_phrases'' = Some (RItems (focus_phrases d))"
    by (auto simp: generate_dialogue_route_def message_only_def server_error_def limit_reached_def
               Let_def
             split: option.splits if_splits prod.splits sum.splits)
  from generateDialogue_success [OF g] obtain result where "validate_dialogue result = Inr d"
    by blast
  then have "length (lines d) = 3" "length (focus_phrases d) = 3"
    by (simp_all add: validate_dialogue_ok)
  with l f show ?thesis by blast
qed

section \<open>Properties of voice selection\<close>

lemma roleVoices_keys:
  "fst ` set (roleVoices gender) =
     {''Professional Server'', ''Flight Attendant'', ''Friendly Barista'',
      ''Senior Executive'', ''Concierge'', ''Check-in Staff''}"
  by (auto simp: roleVoices_def)

lemma roleVoices_unwritten:
  assumes "role \<in> set object_prototype_names \<or> role = []"
  shows "map_of (roleVoices gender) role = None"
proof -
  from assms have "role \<notin> fst ` set (roleVoices gender)"
    unfolding roleVoices_keys by (auto simp: object_prototype_names_def)
  then show ?thesis
    by (simp add: map_of_eq_None_iff)
qed

text \<open>A role that is written in the table decides the voice, whatever the style is.\<close>

lemma roleVoices_hit:
  assumes "map_of (roleVoices gender) role = Some v"
  shows "getOpenAIVoiceForCharacter style gender role = Voice v"
proof -
  have "role \<noteq> []"
    using assms roleVoices_unwritten [of role gender] by auto
  with assms show ?thesis
    by (simp add: getOpenAIVoiceForCharacter_def get_property_def)
qed

text \<open>A role that is neither written in the table nor an inherited name leaves the choice to the
  (gender, style) switch, with the default of the gender for a style outside the switch and
  \<open>nova\<close> for a gender that is neither female nor male.\<close>

lemma roleVoices_miss:
  assumes "map_of (roleVoices gender) role = None" "role \<notin> set object_prototype_names"
  shows "getOpenAIVoiceForCharacter style gender role =
           Voice (if toLowerCase gender = ''female'' then female_voice style
                  else if toLowerCase gender = ''male'' then male_voice style
                  else nova)"
  using assms by (simp add: getOpenAIVoiceForCharacter_def get_property_def)

text \<open>A role that is an inherited name makes the function return the inherited member.\<close>

lemma roleVoices_inherited:
  assumes "role \<in> set object_prototype_names"
  shows "getOpenAIVoiceForCharacter style gender role = InheritedMember role"
proof -
  from assms have "role \<noteq> []"
    by (auto simp: object_prototype_names_def)
  moreover have "map_of (roleVoices gender) role = None"
    using assms by (simp add: roleVoices_unwritten)
  ultimately show ?thesis
    using assms by (simp add: getOpenAIVoiceForCharacter_def get_property_def)
qed

lemma toLowerCase_lower [simp]:
  "toLowerCase ''female'' = ''female''" "toLowerCase ''male'' = ''male''"
  "toLowerCase ''cheerful'' = ''cheerful''" "toLowerCase ''calm'' = ''calm''"
  "toLowerCase ''strict'' = ''strict''"
  by code_simp+

lemma default_voice_of_gender:
  assumes "toLowerCase style \<notin> {''professional'', ''strict'', ''cheerful'', ''friendly'', ''calm''}"
  shows "female_voice style = nova" and "male_voice style = onyx"
  using assms by (simp_all add: female_voice_def male_voice_def Let_def)

lemma gender_style_table:
  "getOpenAIVoiceForCharacter ''cheerful'' ''female'' [] = Voice shimmer"
  "getOpenAIVoiceForCharacter ''calm'' ''female'' [] = Voice alloy"
  "getOpenAIVoiceForCharacter ''strict'' ''female'' [] = Voice nova"
  "getOpenAIVoiceForCharacter ''cheerful'' ''male'' [] = Voice echo"
  "getOpenAIVoiceForCharacter ''calm'' ''male'' [] = Voice fable"
  "getOpenAIVoiceForCharacter ''strict'' ''male'' [] = Voice onyx"
  by (simp_all add: getOpenAIVoiceForCharacter_def female_voice_def male_voice_def)

lemma friendly_barista_override:
  "getOpenAIVoiceForCharacter ''cheerful'' ''female'' ''Friendly Barista'' = Voice alloy"
  "getOpenAIVoiceForCharacter ''cheerful'' ''female'' []
     \<noteq> getOpenAIVoiceForCharacter ''cheerful'' ''female'' ''Friendly Barista''"
proof -
  have "map_of (roleVoices ''female'') ''Friendly Barista'' = Some alloy"
    by (simp add: roleVoices_def)
  then show a: "getOpenAIVoiceForCharacter ''cheerful'' ''female'' ''Friendly Barista'' = Voice alloy"
    by (rule roleVoices_hit)
  show "getOpenAIVoiceForCharacter ''cheerful'' ''female'' []
     \<noteq> getOpenAIVoiceForCharacter ''cheerful'' ''female'' ''Friendly Barista''"
    by (simp add: a gender_style_table)
qed

text \<open>The result is a voice exactly when the role is not an inherited name.\<close>

lemma voice_unless_inherited:
  "(\<exists>v. getOpenAIVoiceForCharacter style gender role = Voice v)
     = (role \<notin> set object_prototype_names)"
proof (cases "role \<in> set object_prototype_names")
  case True
  then show ?thesis by (simp add: roleVoices_inherited)
next
  case False
  then show ?thesis
    by (cases "map_of (roleVoices gender) role") (simp_all add: roleVoices_miss roleVoices_hit)
qed

text \<open>
  Claim C5 (not met by the code).  Voice selection does not return a voice identifier for every
  input: the role is looked up with \<open>roleVoices[role]\<close>, and for a role that is a name inherited
  by every object literal (\<open>constructor\<close>, \<open>toString\<close>, \<open>__proto__\<close>) the test succeeds and the
  function returns the inherited member in place of a voice, whatever gender and style are.
\<close>

theorem role_lookup_returns_inherited_member:
  "getOpenAIVoiceForCharacter ''cheerful'' ''female'' ''constructor'' = InheritedMember ''constructor''
   \<and> getOpenAIVoiceForCharacter ''cheerful'' ''female'' ''toString'' = InheritedMember ''toString''
   \<and> getOpenAIVoiceForCharacter ''calm'' ''male'' ''__proto__'' = InheritedMember ''__proto__''
   \<and> getOpenAIVoiceForCharacter ''cheerful'' ''female'' [] = Voice shimmer"
proof -
  have i: "''constructor'' \<in> set object_prototype_names" "''toString'' \<in> set object_prototype_names"
    "''__proto__'' \<in> set object_prototype_names"
    by (simp_all add: object_prototype_names_def)
  show ?thesis
    by (simp add: roleVoices_inherited [OF i(1)] roleVoices_inherited [OF i(2)]
          roleVoices_inherited [OF i(3)] gender_style_table)
qed

text \<open>The voice that the speech route picks inline for Japanese text depends on the gender
  alone; for other text the route calls the selection without a role, so it gets a voice.\<close>

lemma japaneseVoices_by_gender:
  "japaneseVoices character =
     (if (case character of None \<Rightarrow> None | Some c \<Rightarrow> tc_gender c) = Some ''female''
      then nova else onyx)"
  by (simp add: japaneseVoices_def Let_def)

lemma selection_without_role:
  "\<exists>v. getOpenAIVoiceForCharacter style gender [] = Voice v"
  by (simp add: getOpenAIVoiceForCharacter_def)

section \<open>Properties of speech recognition\<close>

text \<open>
  Claim C7.  An audio payload whose decoded size is below the threshold of 1000 bytes is rejected
  by speech recognition with an error, before the transcription provider is called.  On the
  screen a recording below 1000 bytes leaves the scene as it is (no turn appended, progress
  unchanged), shows nothing and sends no request; a failed recognition request leaves the scene
  as it is too.
\<close>

theorem short_audio_rejected:
  "(length (decode (audioBlob request)) < 1000 \<longrightarrow>
      (\<exists>e. recognizeSpeech apiKey decode transcription request = (Inl e, [])))
   \<and> (length blob < 1000 \<longrightarrow>
      processUserResponse character s blob speech reply speechAudio translation = (s, [], []))
   \<and> fst (processUserResponse character s blob ApiError reply speechAudio translation) = s"
  by (simp add: recognizeSpeech_def processUserResponse_def Let_def)

theorem short_audio_rejected_witness:
  "length (example_decode (audioBlob \<lparr>audioBlob = ''short'', language = ''ja''\<rparr>)) = 500
   \<and> (\<exists>e. recognizeSpeech True example_decode (Some [0x306F, 0x3044])
              \<lparr>audioBlob = ''short'', language = ''ja''\<rparr> = (Inl e, []))
   \<and> length short_audio = 500
   \<and> processUserResponse example_character example_scene short_audio (ApiOk (Some [0x306F, 0x3044]))
        (ApiOk \<lparr>cr_response = Some [0x3069, 0x3046, 0x305E], cr_feedback = None,
                 cr_shouldEndConversation = None\<rparr>)
        (ApiOk (Some ''data:x'')) ApiError = (example_scene, [], [])"
proof -
  have l1: "length (example_decode (audioBlob \<lparr>audioBlob = ''short'', language = ''ja''\<rparr>)) = 500"
    by (simp add: example_decode_def short_audio_def)
  have l2: "length short_audio = 500"
    by (simp add: short_audio_def)
  have c1: "\<exists>e. recognizeSpeech True example_decode (Some [0x306F, 0x3044])
         \<lparr>audioBlob = ''short'', language = ''ja''\<rparr> = (Inl e, [])"
    using short_audio_rejected
         [where decode = example_decode and request = "\<lparr>audioBlob = ''short'', language = ''ja''\<rparr>"
            and apiKey = True and transcription = "Some [0x306F, 0x3044]"] l1
    by simp
  have c2: "processUserResponse example_character example_scene short_audio (ApiOk (Some [0x306F, 0x3044]))
        (ApiOk \<lparr>cr_response = Some [0x3069, 0x3046, 0x305E], cr_feedback = None,
                 cr_shouldEndConversation = None\<rparr>)
        (ApiOk (Some ''data:x'')) ApiError = (example_scene, [], [])"
    using short_audio_rejected
         [where blob = short_audio and character = example_character and s = example_scene
            and speech = "ApiOk (Some [0x306F, 0x3044])"
            and reply = "ApiOk \<lparr>cr_response = Some [0x3069, 0x3046, 0x305E], cr_feedback = None,
                 cr_shouldEndConversation = None\<rparr>"
            and speechAudio = "ApiOk (Some ''data:x'')" and translation = ApiError] l2
    by simp
  show ?thesis using l1 l2 c1 c2 by blast
qed

text \<open>
  Claim C10.  Whenever speech recognition returns a result, its confidence is the constant 0.9,
  whatever the audio, the language and the transcription are.
\<close>

theorem recognized_confidence_constant:
  "recognizeSpeech apiKey decode transcription request = (Inr r, calls) \<longrightarrow> confidence r = 0.9"
  by (auto simp: recognizeSpeech_def Let_def split: if_splits option.splits)


theorem recognized_confidence_constant_witness:
  "\<exists>r calls. recognizeSpeech True example_decode (Some [0x20, 0x306F, 0x3044, 0x20])
          \<lparr>audioBlob = ''long'', language = ''ja''\<rparr> = (Inr r, calls) \<and> confidence r = 0.9"
proof -
  let ?r = "\<lparr>recognized = [0x306F, 0x3044], confidence = 0.9\<rparr>"
  have a: "recognizeSpeech True example_decode (Some [0x20, 0x306F, 0x3044, 0x20])
          \<lparr>audioBlob = ''long'', language = ''ja''\<rparr> = (Inr ?r, [AudioTranscriptions ''ja''])"
    by code_simp
  from recognized_confidence_constant
         [where apiKey = True and decode = example_decode
            and transcription = "Some [0x20, 0x306F, 0x3044, 0x20]"
            and request = "\<lparr>audioBlob = ''long'', language = ''ja''\<rparr>" and r = ?r
            and calls = "[AudioTranscriptions ''ja'']"] a
  have "confidence ?r = 0.9" by blast
  with a show ?thesis by blast
qed

lemma speech_route_confidence:
  assumes "speech_recognition_route apiKey decode transcription auth blob lang = (r, calls)"
    and "status r = 200"
  shows "map_of (body r) ''confidence'' = Some (RReal 0.9)"
proof -
  from assms obtain result where
    "recognizeSpeech apiKey decode transcription
       \<lparr>audioBlob = or_default blob [], language = or_default lang ''ja''\<rparr> = (Inr result, calls)"
    and r: "r = \<lparr>status = 200,
                 body = [(''text'', RText (recognized result)),
                         (''confidence'', RReal (confidence result)),
                         (''message'', RMsg SpeechRecognized)]\<rparr>"
    by (auto simp: speech_recognition_route_def message_only_def server_error_def
             split: option.splits if_splits prod.splits sum.splits)
  then have "confidence result = 0.9"
    by (auto simp: recognizeSpeech_def Let_def split: if_splits option.splits)
  with r show ?thesis by simp
qed

end
